theory Spec2Isabelle
  imports Main "HOL-Library.Word" "HOL-Library.Signed_Division"
begin

unbundle bit_operations_syntax

section \<open>Shared types (common.hpp)\<close>

type_synonym Word = "32 word"
type_synonym Address = "32 word"
type_synonym Byte = "8 word"
type_synonym HalfWord = "16 word"

text \<open>Host-level failures: the out-of-range exception of the register file; the
  undefined behaviour of the C++ division operators (zero divisor, signed overflow);
  other undefined behaviour (the read of an uninitialised local, a shift count outside
  the width); and a loop that does not end. \<open>AssemblyFailed\<close> is the loader's refusal
  of a source that did not assemble.\<close>

datatype error = OutOfRange | ArithFault | Undefined | Diverges | AssemblyFailed

datatype Format = F_R | F_I | F_S | F_B | F_U | F_J | F_UNKNOWN

datatype AluOp =
    A_ADD | A_SUB
  | A_SLL | A_SRL | A_SRA
  | A_SLT | A_SLTU
  | A_XOR | A_OR | A_AND
  | A_MUL | A_MULH | A_MULHSU | A_MULHU
  | A_DIV | A_DIVU | A_REM | A_REMU
  | A_PASS_B
  | A_NONE

datatype InsType =
    I_ADD | I_SUB | I_SLL | I_SLT | I_SLTU | I_XOR | I_SRL | I_SRA | I_OR | I_AND
  | I_ADDI | I_SLTI | I_SLTIU | I_XORI | I_ORI | I_ANDI | I_SLLI | I_SRLI | I_SRAI
  | I_LB | I_LH | I_LW | I_LBU | I_LHU
  | I_SB | I_SH | I_SW
  | I_BEQ | I_BNE | I_BLT | I_BGE | I_BLTU | I_BGEU
  | I_JAL | I_JALR
  | I_LUI | I_AUIPC
  | I_MUL | I_MULH | I_MULHSU | I_MULHU | I_DIV | I_DIVU | I_REM | I_REMU
  | I_ECALL | I_EBREAK
  | I_UNKNOWN

section \<open>ALU (alu.cpp)\<close>

text \<open>The built-in operators \<open>/\<close> and \<open>%\<close> of C++ on \<open>int32_t\<close> and \<open>uint32_t\<close>:
  they truncate towards zero, and are undefined (a trap on the usual hosts) for a zero
  divisor and for \<open>INT_MIN / -1\<close>.\<close>

definition s32_div :: "Word \<Rightarrow> Word \<Rightarrow> error + Word" where
  "s32_div a b =
     (if sint b = 0 \<or> (sint a = - (2 ^ 31) \<and> sint b = - 1) then Inl ArithFault
      else Inr (word_of_int (sint a sdiv sint b)))"

definition s32_rem :: "Word \<Rightarrow> Word \<Rightarrow> error + Word" where
  "s32_rem a b =
     (if sint b = 0 \<or> (sint a = - (2 ^ 31) \<and> sint b = - 1) then Inl ArithFault
      else Inr (word_of_int (sint a smod sint b)))"

definition u32_div :: "Word \<Rightarrow> Word \<Rightarrow> error + Word" where
  "u32_div a b = (if b = 0 then Inl ArithFault else Inr (a div b))"

definition u32_rem :: "Word \<Rightarrow> Word \<Rightarrow> error + Word" where
  "u32_rem a b = (if b = 0 then Inl ArithFault else Inr (a mod b))"

fun ALU_execute :: "AluOp \<Rightarrow> Word \<Rightarrow> Word \<Rightarrow> error + Word" where
  "ALU_execute A_ADD a b = Inr (a + b)"
| "ALU_execute A_SUB a b = Inr (a - b)"
| "ALU_execute A_SLL a b = Inr (push_bit (unat (b AND 0x1F)) a)"
| "ALU_execute A_SRL a b = Inr (drop_bit (unat (b AND 0x1F)) a)"
| "ALU_execute A_SRA a b = Inr (signed_drop_bit (unat (b AND 0x1F)) a)"
| "ALU_execute A_SLT a b = Inr (if a <s b then 1 else 0)"
| "ALU_execute A_SLTU a b = Inr (if a < b then 1 else 0)"
| "ALU_execute A_XOR a b = Inr (a XOR b)"
| "ALU_execute A_OR a b = Inr (a OR b)"
| "ALU_execute A_AND a b = Inr (a AND b)"
| "ALU_execute A_MUL a b =
     Inr (ucast (((scast a :: 64 word) * scast b) AND 0xFFFFFFFF))"
| "ALU_execute A_MULH a b =
     Inr (ucast (signed_drop_bit 32 ((scast a :: 64 word) * scast b) AND 0xFFFFFFFF))"
| "ALU_execute A_MULHSU a b =
     Inr (ucast (signed_drop_bit 32 ((scast a :: 64 word) * ucast b) AND 0xFFFFFFFF))"
| "ALU_execute A_MULHU a b =
     Inr (ucast (drop_bit 32 ((ucast a :: 64 word) * ucast b) AND 0xFFFFFFFF))"
| "ALU_execute A_DIV a b =
     (if b = 0 then Inr 0xFFFFFFFF
      else if a = 0x80000000 \<and> b = - 1 then Inr a
      else s32_div a b)"
| "ALU_execute A_DIVU a b = (if b = 0 then Inr 0xFFFFFFFF else u32_div a b)"
| "ALU_execute A_REM a b =
     (if b = 0 then Inr a
      else if a = 0x80000000 \<and> b = - 1 then Inr 0
      else s32_rem a b)"
| "ALU_execute A_REMU a b = (if b = 0 then Inr a else u32_rem a b)"
| "ALU_execute A_PASS_B a b = Inr b"
| "ALU_execute A_NONE a b = Inr 0"

fun ALU_branch_taken :: "InsType \<Rightarrow> Word \<Rightarrow> Word \<Rightarrow> bool" where
  "ALU_branch_taken I_BEQ rs1_val rs2_val = (rs1_val = rs2_val)"
| "ALU_branch_taken I_BNE rs1_val rs2_val = (rs1_val \<noteq> rs2_val)"
| "ALU_branch_taken I_BLT rs1_val rs2_val = (rs1_val <s rs2_val)"
| "ALU_branch_taken I_BGE rs1_val rs2_val = (rs2_val \<le>s rs1_val)"
| "ALU_branch_taken I_BLTU rs1_val rs2_val = (rs1_val < rs2_val)"
| "ALU_branch_taken I_BGEU rs1_val rs2_val = (rs2_val \<le> rs1_val)"
| "ALU_branch_taken _ rs1_val rs2_val = False"


section \<open>Decoded instruction and pipeline latches (common.hpp)\<close>

text \<open>The record \<open>Instruction\<close> of the source. The field \<open>type\<close> is called \<open>itype\<close>
  here; the disassembly string \<open>text\<close> is display only and left out. The three
  register indices are C++ \<open>int\<close>s.\<close>

record Instruction =
  raw :: Word
  itype :: InsType
  format :: Format
  rd :: int
  rs1 :: int
  rs2 :: int
  imm :: Word
  reg_write :: bool
  mem_read :: bool
  mem_write :: bool
  mem_to_reg :: bool
  branch :: bool
  jump :: bool
  alu_src :: bool
  alu_op :: AluOp
  pc :: Address

text \<open>The default member initialisers of \<open>struct Instruction\<close>.\<close>

definition Instruction_default :: Instruction where
  "Instruction_default =
     \<lparr> raw = 0x00000013, itype = I_ADDI, format = F_I,
       rd = 0, rs1 = 0, rs2 = 0, imm = 0,
       reg_write = False, mem_read = False, mem_write = False, mem_to_reg = False,
       branch = False, jump = False, alu_src = False, alu_op = A_NONE,
       pc = 0 \<rparr>"

definition is_nop :: "Instruction \<Rightarrow> bool" where
  "is_nop ins = (raw ins = 0x00000013 \<or> raw ins = 0)"

text \<open>The four latches. Their fields carry the latch as a prefix, since several latches
  of the source share field names (\<open>valid\<close>, \<open>ins\<close>, \<open>pc\<close>, ...).\<close>

record IF_ID =
  ifid_instruction :: Word
  ifid_pc :: Address
  ifid_next_pc :: Address
  ifid_valid :: bool

record ID_EX =
  idex_ins :: Instruction
  idex_rs1_val :: Word
  idex_rs2_val :: Word
  idex_pc :: Address
  idex_next_pc :: Address
  idex_valid :: bool

record EX_MEM =
  exmem_ins :: Instruction
  exmem_alu_result :: Word
  exmem_rs2_val :: Word
  exmem_branch_target :: Address
  exmem_branch_taken :: bool
  exmem_valid :: bool

record MEM_WB =
  memwb_ins :: Instruction
  memwb_alu_result :: Word
  memwb_mem_data :: Word
  memwb_valid :: bool

definition IF_ID_flush :: IF_ID where
  "IF_ID_flush =
     \<lparr> ifid_instruction = 0x13, ifid_pc = 0, ifid_next_pc = 4, ifid_valid = False \<rparr>"

definition ID_EX_flush :: ID_EX where
  "ID_EX_flush =
     \<lparr> idex_ins = Instruction_default, idex_rs1_val = 0, idex_rs2_val = 0,
       idex_pc = 0, idex_next_pc = 4, idex_valid = False \<rparr>"

definition EX_MEM_flush :: EX_MEM where
  "EX_MEM_flush =
     \<lparr> exmem_ins = Instruction_default, exmem_alu_result = 0, exmem_rs2_val = 0,
       exmem_branch_target = 0, exmem_branch_taken = False, exmem_valid = False \<rparr>"

definition MEM_WB_flush :: MEM_WB where
  "MEM_WB_flush =
     \<lparr> memwb_ins = Instruction_default, memwb_alu_result = 0, memwb_mem_data = 0,
       memwb_valid = False \<rparr>"

datatype Forward = FWD_NONE | FWD_EX_MEM | FWD_MEM_WB

definition sign_extend :: "Word \<Rightarrow> nat \<Rightarrow> Word" where
  "sign_extend v n =
     (let sign_bit = push_bit (n - 1) 1
      in if v AND sign_bit \<noteq> 0 then v OR NOT (push_bit n 1 - 1) else v)"

section \<open>Decoder (decoder.cpp)\<close>

definition bits :: "Word \<Rightarrow> nat \<Rightarrow> nat \<Rightarrow> Word" where
  "bits v hi lo = drop_bit lo v AND (push_bit (hi - lo + 1) 1 - 1)"

definition get_rd :: "Word \<Rightarrow> int" where "get_rd w = uint (bits w 11 7)"
definition get_rs1 :: "Word \<Rightarrow> int" where "get_rs1 w = uint (bits w 19 15)"
definition get_rs2 :: "Word \<Rightarrow> int" where "get_rs2 w = uint (bits w 24 20)"
definition get_funct3 :: "Word \<Rightarrow> Word" where "get_funct3 w = bits w 14 12"
definition get_funct7 :: "Word \<Rightarrow> Word" where "get_funct7 w = bits w 31 25"

definition imm_i :: "Word \<Rightarrow> Word" where
  "imm_i w = sign_extend (bits w 31 20) 12"

definition imm_s :: "Word \<Rightarrow> Word" where
  "imm_s w = sign_extend (push_bit 5 (bits w 31 25) OR bits w 11 7) 12"

definition imm_b :: "Word \<Rightarrow> Word" where
  "imm_b w =
     sign_extend (push_bit 12 (bits w 31 31) OR push_bit 11 (bits w 7 7) OR
                  push_bit 5 (bits w 30 25) OR push_bit 1 (bits w 11 8)) 13"

definition imm_u :: "Word \<Rightarrow> Word" where
  "imm_u w = w AND 0xFFFFF000"

definition imm_j :: "Word \<Rightarrow> Word" where
  "imm_j w =
     sign_extend (push_bit 20 (bits w 31 31) OR push_bit 12 (bits w 19 12) OR
                  push_bit 11 (bits w 20 20) OR push_bit 1 (bits w 30 21)) 21"

definition OP_LUI :: Word where "OP_LUI = 0b0110111"
definition OP_AUIPC :: Word where "OP_AUIPC = 0b0010111"
definition OP_JAL :: Word where "OP_JAL = 0b1101111"
definition OP_JALR :: Word where "OP_JALR = 0b1100111"
definition OP_BRANCH :: Word where "OP_BRANCH = 0b1100011"
definition OP_LOAD :: Word where "OP_LOAD = 0b0000011"
definition OP_STORE :: Word where "OP_STORE = 0b0100011"
definition OP_IMM :: Word where "OP_IMM = 0b0010011"
definition OP_REG :: Word where "OP_REG = 0b0110011"
definition OP_SYSTEM :: Word where "OP_SYSTEM = 0b1110011"

text \<open>The inner \<open>switch (funct3)\<close> statements of \<open>Decoder::decode\<close>, one function per
  opcode case; each takes the record as the outer case has left it.\<close>

definition decode_branch :: "Word \<Rightarrow> Instruction \<Rightarrow> Instruction" where
  "decode_branch funct3 ins =
     (if funct3 = 0b000 then ins\<lparr>itype := I_BEQ\<rparr>
      else if funct3 = 0b001 then ins\<lparr>itype := I_BNE\<rparr>
      else if funct3 = 0b100 then ins\<lparr>itype := I_BLT\<rparr>
      else if funct3 = 0b101 then ins\<lparr>itype := I_BGE\<rparr>
      else if funct3 = 0b110 then ins\<lparr>itype := I_BLTU\<rparr>
      else if funct3 = 0b111 then ins\<lparr>itype := I_BGEU\<rparr>
      else ins\<lparr>itype := I_UNKNOWN\<rparr>)"

definition decode_load :: "Word \<Rightarrow> Instruction \<Rightarrow> Instruction" where
  "decode_load funct3 ins =
     (if funct3 = 0b000 then ins\<lparr>itype := I_LB\<rparr>
      else if funct3 = 0b001 then ins\<lparr>itype := I_LH\<rparr>
      else if funct3 = 0b010 then ins\<lparr>itype := I_LW\<rparr>
      else if funct3 = 0b100 then ins\<lparr>itype := I_LBU\<rparr>
      else if funct3 = 0b101 then ins\<lparr>itype := I_LHU\<rparr>
      else ins\<lparr>itype := I_UNKNOWN\<rparr>)"

definition decode_store :: "Word \<Rightarrow> Instruction \<Rightarrow> Instruction" where
  "decode_store funct3 ins =
     (if funct3 = 0b000 then ins\<lparr>itype := I_SB\<rparr>
      else if funct3 = 0b001 then ins\<lparr>itype := I_SH\<rparr>
      else if funct3 = 0b010 then ins\<lparr>itype := I_SW\<rparr>
      else ins\<lparr>itype := I_UNKNOWN\<rparr>)"

definition decode_imm :: "Word \<Rightarrow> Word \<Rightarrow> Instruction \<Rightarrow> Instruction" where
  "decode_imm funct3 funct7 ins =
     (if funct3 = 0b000 then ins\<lparr>itype := I_ADDI, alu_op := A_ADD\<rparr>
      else if funct3 = 0b010 then ins\<lparr>itype := I_SLTI, alu_op := A_SLT\<rparr>
      else if funct3 = 0b011 then ins\<lparr>itype := I_SLTIU, alu_op := A_SLTU\<rparr>
      else if funct3 = 0b100 then ins\<lparr>itype := I_XORI, alu_op := A_XOR\<rparr>
      else if funct3 = 0b110 then ins\<lparr>itype := I_ORI, alu_op := A_OR\<rparr>
      else if funct3 = 0b111 then ins\<lparr>itype := I_ANDI, alu_op := A_AND\<rparr>
      else if funct3 = 0b001 then
        ins\<lparr>itype := I_SLLI, alu_op := A_SLL, imm := word_of_int (rs2 ins)\<rparr>
      else if funct3 = 0b101 then
        (if funct7 AND 0x20 \<noteq> 0
         then ins\<lparr>imm := word_of_int (rs2 ins), itype := I_SRAI, alu_op := A_SRA\<rparr>
         else ins\<lparr>imm := word_of_int (rs2 ins), itype := I_SRLI, alu_op := A_SRL\<rparr>)
      else ins\<lparr>itype := I_UNKNOWN\<rparr>)"

definition decode_reg :: "Word \<Rightarrow> Word \<Rightarrow> Instruction \<Rightarrow> Instruction" where
  "decode_reg funct3 funct7 ins =
     (if funct7 = 0x01 then
        (if funct3 = 0b000 then ins\<lparr>itype := I_MUL, alu_op := A_MUL\<rparr>
         else if funct3 = 0b001 then ins\<lparr>itype := I_MULH, alu_op := A_MULH\<rparr>
         else if funct3 = 0b010 then ins\<lparr>itype := I_MULHSU, alu_op := A_MULHSU\<rparr>
         else if funct3 = 0b011 then ins\<lparr>itype := I_MULHU, alu_op := A_MULHU\<rparr>
         else if funct3 = 0b100 then ins\<lparr>itype := I_DIV, alu_op := A_DIV\<rparr>
         else if funct3 = 0b101 then ins\<lparr>itype := I_DIVU, alu_op := A_DIVU\<rparr>
         else if funct3 = 0b110 then ins\<lparr>itype := I_REM, alu_op := A_REM\<rparr>
         else if funct3 = 0b111 then ins\<lparr>itype := I_REMU, alu_op := A_REMU\<rparr>
         else ins\<lparr>itype := I_UNKNOWN\<rparr>)
      else
        (if funct3 = 0b000 then
           (if funct7 AND 0x20 \<noteq> 0 then ins\<lparr>itype := I_SUB, alu_op := A_SUB\<rparr>
            else ins\<lparr>itype := I_ADD, alu_op := A_ADD\<rparr>)
         else if funct3 = 0b001 then ins\<lparr>itype := I_SLL, alu_op := A_SLL\<rparr>
         else if funct3 = 0b010 then ins\<lparr>itype := I_SLT, alu_op := A_SLT\<rparr>
         else if funct3 = 0b011 then ins\<lparr>itype := I_SLTU, alu_op := A_SLTU\<rparr>
         else if funct3 = 0b100 then ins\<lparr>itype := I_XOR, alu_op := A_XOR\<rparr>
         else if funct3 = 0b101 then
           (if funct7 AND 0x20 \<noteq> 0 then ins\<lparr>itype := I_SRA, alu_op := A_SRA\<rparr>
            else ins\<lparr>itype := I_SRL, alu_op := A_SRL\<rparr>)
         else if funct3 = 0b110 then ins\<lparr>itype := I_OR, alu_op := A_OR\<rparr>
         else if funct3 = 0b111 then ins\<lparr>itype := I_AND, alu_op := A_AND\<rparr>
         else ins\<lparr>itype := I_UNKNOWN\<rparr>))"

definition decode_system :: "Instruction \<Rightarrow> Instruction" where
  "decode_system ins =
     (if imm ins = 0 then ins\<lparr>itype := I_ECALL\<rparr>
      else if imm ins = 1 then ins\<lparr>itype := I_EBREAK\<rparr>
      else ins\<lparr>itype := I_UNKNOWN\<rparr>)"

definition decode :: "Word \<Rightarrow> Address \<Rightarrow> Instruction" where
  "decode w a =
     (let ins = Instruction_default
                  \<lparr>raw := w, pc := a, rd := get_rd w, rs1 := get_rs1 w, rs2 := get_rs2 w\<rparr>;
          opcode = bits w 6 0;
          funct3 = get_funct3 w;
          funct7 = get_funct7 w
      in if opcode = OP_LUI then
           ins\<lparr>itype := I_LUI, format := F_U, imm := imm_u w, reg_write := True,
               alu_src := True, alu_op := A_PASS_B\<rparr>
         else if opcode = OP_AUIPC then
           ins\<lparr>itype := I_AUIPC, format := F_U, imm := imm_u w, reg_write := True,
               alu_src := True, alu_op := A_ADD\<rparr>
         else if opcode = OP_JAL then
           ins\<lparr>itype := I_JAL, format := F_J, imm := imm_j w, reg_write := True,
               jump := True\<rparr>
         else if opcode = OP_JALR then
           ins\<lparr>itype := I_JALR, format := F_I, imm := imm_i w, reg_write := True,
               jump := True, alu_src := True, alu_op := A_ADD\<rparr>
         else if opcode = OP_BRANCH then
           decode_branch funct3 (ins\<lparr>format := F_B, imm := imm_b w, branch := True\<rparr>)
         else if opcode = OP_LOAD then
           decode_load funct3
             (ins\<lparr>format := F_I, imm := imm_i w, reg_write := True, mem_read := True,
                  mem_to_reg := True, alu_src := True, alu_op := A_ADD\<rparr>)
         else if opcode = OP_STORE then
           decode_store funct3
             (ins\<lparr>format := F_S, imm := imm_s w, mem_write := True, alu_src := True,
                  alu_op := A_ADD\<rparr>)
         else if opcode = OP_IMM then
           decode_imm funct3 funct7
             (ins\<lparr>format := F_I, imm := imm_i w, reg_write := True, alu_src := True\<rparr>)
         else if opcode = OP_REG then
           decode_reg funct3 funct7 (ins\<lparr>format := F_R, reg_write := True, imm := 0\<rparr>)
         else if opcode = OP_SYSTEM then
           decode_system (ins\<lparr>format := F_I, imm := imm_i w\<rparr>)
         else ins\<lparr>itype := I_UNKNOWN, format := F_UNKNOWN\<rparr>)"


section \<open>Memory (memory.cpp)\<close>

text \<open>The sparse byte map \<open>mem\<close> of the source is the field \<open>bytes\<close>; reads count too, so
  every read returns the memory with its counter advanced.\<close>

record Memory =
  bytes :: "Address \<rightharpoonup> Byte"
  read_count :: "64 word"
  write_count :: "64 word"

definition TEXT_BASE :: Address where "TEXT_BASE = 0x00000000"
definition DATA_BASE :: Address where "DATA_BASE = 0x10000000"
definition STACK_TOP :: Address where "STACK_TOP = 0x7FFFFFF0"

definition Memory_reset :: Memory where
  "Memory_reset = \<lparr> bytes = Map.empty, read_count = 0, write_count = 0 \<rparr>"

definition read_byte :: "Memory \<Rightarrow> Address \<Rightarrow> Byte \<times> Memory" where
  "read_byte m addr =
     ((case bytes m addr of Some b \<Rightarrow> b | None \<Rightarrow> 0),
      m\<lparr>read_count := read_count m + 1\<rparr>)"

definition write_byte :: "Memory \<Rightarrow> Address \<Rightarrow> Byte \<Rightarrow> Memory" where
  "write_byte m addr v =
     m\<lparr>write_count := write_count m + 1, bytes := (bytes m)(addr \<mapsto> v)\<rparr>"

definition read_half :: "Memory \<Rightarrow> Address \<Rightarrow> HalfWord \<times> Memory" where
  "read_half m addr =
     (let (lo, m1) = read_byte m addr;
          (hi, m2) = read_byte m1 (addr + 1)
      in (ucast lo OR push_bit 8 (ucast hi), m2))"

definition write_half :: "Memory \<Rightarrow> Address \<Rightarrow> HalfWord \<Rightarrow> Memory" where
  "write_half m addr v =
     (let m1 = write_byte m addr (ucast (v AND 0xFF))
      in write_byte m1 (addr + 1) (ucast (drop_bit 8 v AND 0xFF)))"

definition read_word :: "Memory \<Rightarrow> Address \<Rightarrow> Word \<times> Memory" where
  "read_word m addr =
     (let (b0, m1) = read_byte m addr;
          (b1, m2) = read_byte m1 (addr + 1);
          (b2, m3) = read_byte m2 (addr + 2);
          (b3, m4) = read_byte m3 (addr + 3)
      in (ucast b0 OR push_bit 8 (ucast b1) OR push_bit 16 (ucast b2) OR
          push_bit 24 (ucast b3), m4))"

definition write_word :: "Memory \<Rightarrow> Address \<Rightarrow> Word \<Rightarrow> Memory" where
  "write_word m addr v =
     (let m1 = write_byte m addr (ucast (v AND 0xFF));
          m2 = write_byte m1 (addr + 1) (ucast (drop_bit 8 v AND 0xFF));
          m3 = write_byte m2 (addr + 2) (ucast (drop_bit 16 v AND 0xFF))
      in write_byte m3 (addr + 3) (ucast (drop_bit 24 v AND 0xFF)))"

definition read_byte_signed :: "Memory \<Rightarrow> Address \<Rightarrow> Word \<times> Memory" where
  "read_byte_signed m addr =
     (let (val, m1) = read_byte m addr in (sign_extend (ucast val) 8, m1))"

definition read_half_signed :: "Memory \<Rightarrow> Address \<Rightarrow> Word \<times> Memory" where
  "read_half_signed m addr =
     (let (val, m1) = read_half m addr in (sign_extend (ucast val) 16, m1))"

fun write_block :: "Memory \<Rightarrow> Address \<Rightarrow> Word list \<Rightarrow> Memory" where
  "write_block m addr [] = m"
| "write_block m addr (w # ws) = write_block (write_word m addr w) (addr + 4) ws"

fun write_bytes :: "Memory \<Rightarrow> Address \<Rightarrow> Byte list \<Rightarrow> Memory" where
  "write_bytes m addr [] = m"
| "write_bytes m addr (b # bs) = write_bytes (write_byte m addr b) (addr + 1) bs"

section \<open>Register file (register_file.cpp)\<close>

type_synonym RegisterFile = "Word list"

definition NUM_REGISTERS :: int where "NUM_REGISTERS = 32"

definition RegisterFile_reset :: RegisterFile where
  "RegisterFile_reset = replicate 32 0"

definition RegisterFile_read :: "RegisterFile \<Rightarrow> int \<Rightarrow> error + Word" where
  "RegisterFile_read regs reg =
     (if reg < 0 \<or> reg \<ge> NUM_REGISTERS then Inl OutOfRange
      else Inr (if reg = 0 then 0 else regs ! nat reg))"

definition RegisterFile_write :: "RegisterFile \<Rightarrow> int \<Rightarrow> Word \<Rightarrow> error + RegisterFile" where
  "RegisterFile_write regs reg v =
     (if reg < 0 \<or> reg \<ge> NUM_REGISTERS then Inl OutOfRange
      else Inr (if reg \<noteq> 0 then regs[nat reg := v] else regs))"

text \<open>Sequencing of fallible steps: the first failure is the result, as a C++ exception
  leaving the enclosing calls would make it.\<close>

definition bind :: "error + 'a \<Rightarrow> ('a \<Rightarrow> error + 'b) \<Rightarrow> error + 'b" where
  "bind m f = (case m of Inl e \<Rightarrow> Inl e | Inr x \<Rightarrow> f x)"

section \<open>Single-cycle executor (cpu.cpp)\<close>

record CPU =
  c_mem :: Memory
  c_regs :: RegisterFile
  c_pc :: Address
  c_cycles :: "64 word"
  c_instructions :: "64 word"
  c_halted :: bool
  last_ins :: Instruction
  c_breakpoints :: "Address list"

definition CPU_execute :: "Address \<Rightarrow> Instruction \<Rightarrow> Word \<Rightarrow> Word \<Rightarrow> error + Word" where
  "CPU_execute cur_pc ins rs1_val rs2_val =
     (let alu_a = rs1_val;
          alu_b = (if alu_src ins then imm ins else rs2_val);
          alu_a = (if itype ins = I_AUIPC then cur_pc else alu_a)
      in ALU_execute (alu_op ins) alu_a alu_b)"

text \<open>The load part of the memory stage, shared in shape by both executors:
  \<open>None\<close> when the \<open>switch\<close> falls to \<open>default\<close>.\<close>

definition load_by_type :: "Memory \<Rightarrow> InsType \<Rightarrow> Address \<Rightarrow> (Word \<times> Memory) option" where
  "load_by_type m t addr =
     (if t = I_LB then Some (read_byte_signed m addr)
      else if t = I_LH then Some (read_half_signed m addr)
      else if t = I_LW then Some (read_word m addr)
      else if t = I_LBU then Some (let (b, m1) = read_byte m addr in (ucast b, m1))
      else if t = I_LHU then Some (let (h, m1) = read_half m addr in (ucast h, m1))
      else None)"

definition store_by_type :: "Memory \<Rightarrow> InsType \<Rightarrow> Address \<Rightarrow> Word \<Rightarrow> Memory" where
  "store_by_type m t addr val =
     (if t = I_SB then write_byte m addr (ucast (val AND 0xFF))
      else if t = I_SH then write_half m addr (ucast (val AND 0xFFFF))
      else if t = I_SW then write_word m addr val
      else m)"

definition memory_access :: "Memory \<Rightarrow> Instruction \<Rightarrow> Word \<Rightarrow> Word \<Rightarrow> Word \<times> Memory" where
  "memory_access m ins alu_result rs2_val =
     (let addr = alu_result
      in case (if mem_read ins then load_by_type m (itype ins) addr else None) of
           Some r \<Rightarrow> r
         | None \<Rightarrow>
             (alu_result,
              if mem_write ins then store_by_type m (itype ins) addr rs2_val else m))"

definition writeback :: "RegisterFile \<Rightarrow> Instruction \<Rightarrow> Word \<Rightarrow> error + RegisterFile" where
  "writeback regs ins result =
     (if reg_write ins \<and> rd ins \<noteq> 0 then RegisterFile_write regs (rd ins) result
      else Inr regs)"

definition has_breakpoint :: "Address list \<Rightarrow> Address \<Rightarrow> bool" where
  "has_breakpoint bps addr = (addr \<in> set bps)"

definition CPU_step :: "CPU \<Rightarrow> error + (bool \<times> CPU)" where
  "CPU_step c =
     (if c_halted c then Inr (False, c)
      else
        let (w, m1) = read_word (c_mem c) (c_pc c);
            ins = decode w (c_pc c);
            c1 = c\<lparr>c_mem := m1, last_ins := ins\<rparr>
        in if itype ins = I_ECALL then
             Inr (False, c1\<lparr>c_halted := True, c_cycles := c_cycles c1 + 1,
                             c_instructions := c_instructions c1 + 1\<rparr>)
           else
             bind (RegisterFile_read (c_regs c1) (rs1 ins)) (\<lambda>rs1_val.
             bind (RegisterFile_read (c_regs c1) (rs2 ins)) (\<lambda>rs2_val.
             bind (CPU_execute (c_pc c1) ins rs1_val rs2_val) (\<lambda>alu_result0.
               let next_pc0 = c_pc c1 + 4;
                   (next_pc, alu_result) =
                     (if jump ins then
                        (if itype ins = I_JAL then (c_pc c1 + imm ins, c_pc c1 + 4)
                         else if itype ins = I_JALR then
                           ((rs1_val + imm ins) AND NOT 1, c_pc c1 + 4)
                         else (next_pc0, alu_result0))
                      else if branch ins then
                        (if ALU_branch_taken (itype ins) rs1_val rs2_val
                         then (c_pc c1 + imm ins, alu_result0)
                         else (next_pc0, alu_result0))
                      else (next_pc0, alu_result0));
                   (mem_result, m2) = memory_access (c_mem c1) ins alu_result rs2_val;
                   wb_result = (if mem_to_reg ins then mem_result else alu_result)
               in bind (writeback (c_regs c1) ins wb_result) (\<lambda>regs'.
                    let c2 = c1\<lparr>c_mem := m2, c_regs := regs', c_pc := next_pc,
                                 c_cycles := c_cycles c1 + 1,
                                 c_instructions := c_instructions c1 + 1\<rparr>
                    in Inr (\<not> has_breakpoint (c_breakpoints c2) (c_pc c2), c2))))))"

text \<open>\<open>CPU::run\<close> is \<open>while (step()) {}\<close>, which need not end. The fuel bounds the number
  of steps: \<open>None\<close> is fuel exhausted, \<open>Some (Inl e)\<close> a host fault, \<open>Some (Inr c)\<close> the
  state in which \<open>step\<close> returned false.\<close>

fun CPU_run :: "nat \<Rightarrow> CPU \<Rightarrow> (error + CPU) option" where
  "CPU_run 0 c = None"
| "CPU_run (Suc n) c =
     (case CPU_step c of
        Inl e \<Rightarrow> Some (Inl e)
      | Inr (continue, c') \<Rightarrow> if continue then CPU_run n c' else Some (Inr c'))"

definition CPU_reset :: "CPU \<Rightarrow> CPU" where
  "CPU_reset c =
     c\<lparr>c_pc := TEXT_BASE, c_cycles := 0, c_instructions := 0, c_halted := False,
       c_regs := RegisterFile_reset\<rparr>"


section \<open>Five-stage pipeline (pipeline.cpp)\<close>

record Pipeline =
  p_mem :: Memory
  p_regs :: RegisterFile
  if_id :: IF_ID
  id_ex :: ID_EX
  ex_mem :: EX_MEM
  mem_wb :: MEM_WB
  p_pc :: Address
  p_next_pc :: Address
  hazard_detection :: bool
  forwarding :: bool
  p_halted :: bool
  stalled :: bool
  p_cycles :: "64 word"
  p_instructions :: "64 word"
  stalls :: "64 word"
  flushes :: "64 word"
  forwards :: "64 word"
  p_breakpoints :: "Address list"

definition Pipeline_init :: "Memory \<Rightarrow> RegisterFile \<Rightarrow> Pipeline" where
  "Pipeline_init m r =
     \<lparr> p_mem = m, p_regs = r,
       if_id = IF_ID_flush, id_ex = ID_EX_flush, ex_mem = EX_MEM_flush,
       mem_wb = MEM_WB_flush,
       p_pc = TEXT_BASE, p_next_pc = TEXT_BASE + 4,
       hazard_detection = True, forwarding = True, p_halted = False, stalled = False,
       p_cycles = 0, p_instructions = 0, stalls = 0, flushes = 0, forwards = 0,
       p_breakpoints = [] \<rparr>"

definition Pipeline_reset :: "Pipeline \<Rightarrow> Pipeline" where
  "Pipeline_reset p =
     p\<lparr>p_pc := TEXT_BASE, p_next_pc := TEXT_BASE + 4, p_halted := False, stalled := False,
       p_cycles := 0, p_instructions := 0, stalls := 0, flushes := 0, forwards := 0,
       if_id := IF_ID_flush, id_ex := ID_EX_flush, ex_mem := EX_MEM_flush,
       mem_wb := MEM_WB_flush, p_regs := RegisterFile_reset\<rparr>"

subsection \<open>Forwarding logic\<close>

definition get_forward_a :: "Pipeline \<Rightarrow> Forward \<times> Pipeline" where
  "get_forward_a p =
     (if \<not> forwarding p then (FWD_NONE, p)
      else
        let r = rs1 (idex_ins (id_ex p))
        in if r = 0 then (FWD_NONE, p)
           else if exmem_valid (ex_mem p) \<and> reg_write (exmem_ins (ex_mem p)) \<and>
                   rd (exmem_ins (ex_mem p)) = r
             then (FWD_EX_MEM, p\<lparr>forwards := forwards p + 1\<rparr>)
           else if memwb_valid (mem_wb p) \<and> reg_write (memwb_ins (mem_wb p)) \<and>
                   rd (memwb_ins (mem_wb p)) = r
             then (FWD_MEM_WB, p\<lparr>forwards := forwards p + 1\<rparr>)
           else (FWD_NONE, p))"

definition get_forward_b :: "Pipeline \<Rightarrow> Forward \<times> Pipeline" where
  "get_forward_b p =
     (if \<not> forwarding p then (FWD_NONE, p)
      else
        let r = rs2 (idex_ins (id_ex p))
        in if r = 0 then (FWD_NONE, p)
           else if exmem_valid (ex_mem p) \<and> reg_write (exmem_ins (ex_mem p)) \<and>
                   rd (exmem_ins (ex_mem p)) = r
             then (FWD_EX_MEM, p\<lparr>forwards := forwards p + 1\<rparr>)
           else if memwb_valid (mem_wb p) \<and> reg_write (memwb_ins (mem_wb p)) \<and>
                   rd (memwb_ins (mem_wb p)) = r
             then (FWD_MEM_WB, p\<lparr>forwards := forwards p + 1\<rparr>)
           else (FWD_NONE, p))"

fun get_forwarded_value :: "Pipeline \<Rightarrow> Forward \<Rightarrow> Word \<Rightarrow> Word" where
  "get_forwarded_value p FWD_EX_MEM reg_val = exmem_alu_result (ex_mem p)"
| "get_forwarded_value p FWD_MEM_WB reg_val =
     (if mem_to_reg (memwb_ins (mem_wb p)) then memwb_mem_data (mem_wb p)
      else memwb_alu_result (mem_wb p))"
| "get_forwarded_value p FWD_NONE reg_val = reg_val"

subsection \<open>Hazard detection\<close>

definition detect_load_use_hazard :: "Pipeline \<Rightarrow> bool" where
  "detect_load_use_hazard p =
     (if \<not> hazard_detection p then False
      else if idex_valid (id_ex p) \<and> mem_read (idex_ins (id_ex p)) then
        (let next_ins = decode (ifid_instruction (if_id p)) (ifid_pc (if_id p))
         in if rd (idex_ins (id_ex p)) \<noteq> 0 then
              (if rd (idex_ins (id_ex p)) = rs1 next_ins \<or>
                  rd (idex_ins (id_ex p)) = rs2 next_ins
               then True else False)
            else False)
      else False)"

subsection \<open>The stages\<close>

definition stage_if :: "Pipeline \<Rightarrow> Pipeline" where
  "stage_if p =
     (if stalled p then p
      else
        let (w, m1) = read_word (p_mem p) (p_pc p);
            p1 = p\<lparr>p_mem := m1,
                   if_id := \<lparr> ifid_instruction = w, ifid_pc = p_pc p,
                              ifid_next_pc = p_pc p + 4, ifid_valid = True \<rparr>\<rparr>;
            p2 = p1\<lparr>p_pc := p_next_pc p1\<rparr>
        in p2\<lparr>p_next_pc := p_pc p2 + 4\<rparr>)"

definition stage_id :: "Pipeline \<Rightarrow> error + Pipeline" where
  "stage_id p =
     (if \<not> ifid_valid (if_id p) then Inr (p\<lparr>id_ex := ID_EX_flush\<rparr>)
      else
        let ins = decode (ifid_instruction (if_id p)) (ifid_pc (if_id p))
        in bind (RegisterFile_read (p_regs p) (rs1 ins)) (\<lambda>rs1_val.
           bind (RegisterFile_read (p_regs p) (rs2 ins)) (\<lambda>rs2_val.
             Inr (p\<lparr>id_ex := \<lparr> idex_ins = ins, idex_rs1_val = rs1_val,
                                idex_rs2_val = rs2_val, idex_pc = ifid_pc (if_id p),
                                idex_next_pc = ifid_next_pc (if_id p),
                                idex_valid = True \<rparr>\<rparr>))))"

definition stage_ex :: "Pipeline \<Rightarrow> error + Pipeline" where
  "stage_ex p =
     (if \<not> idex_valid (id_ex p) then Inr (p\<lparr>ex_mem := EX_MEM_flush\<rparr>)
      else
        let ins = idex_ins (id_ex p);
            (fwd_a, p1) = get_forward_a p;
            (fwd_b, p2) = get_forward_b p1;
            rs1_val = get_forwarded_value p2 fwd_a (idex_rs1_val (id_ex p2));
            rs2_val = get_forwarded_value p2 fwd_b (idex_rs2_val (id_ex p2));
            alu_a = rs1_val;
            alu_b = (if alu_src ins then imm ins else rs2_val);
            alu_a = (if itype ins = I_AUIPC then idex_pc (id_ex p2) else alu_a)
        in bind (ALU_execute (alu_op ins) alu_a alu_b) (\<lambda>alu_result0.
             let (branch_target, branch_taken, alu_result) =
                   (if jump ins then
                      (if itype ins = I_JAL then
                         (idex_pc (id_ex p2) + imm ins, True, idex_pc (id_ex p2) + 4)
                       else if itype ins = I_JALR then
                         ((rs1_val + imm ins) AND NOT 1, True, idex_pc (id_ex p2) + 4)
                       else (0, False, alu_result0))
                    else if branch ins then
                      (if ALU_branch_taken (itype ins) rs1_val rs2_val
                       then (idex_pc (id_ex p2) + imm ins, True, alu_result0)
                       else (0, False, alu_result0))
                    else (0, False, alu_result0));
                 p3 = p2\<lparr>ex_mem := \<lparr> exmem_ins = ins, exmem_alu_result = alu_result,
                                       exmem_rs2_val = rs2_val,
                                       exmem_branch_target = branch_target,
                                       exmem_branch_taken = branch_taken,
                                       exmem_valid = True \<rparr>\<rparr>
             in Inr (if branch_taken then
                       p3\<lparr>p_next_pc := branch_target, p_pc := branch_target,
                          if_id := IF_ID_flush, id_ex := ID_EX_flush,
                          flushes := flushes p3 + 2\<rparr>
                     else p3)))"

definition stage_mem :: "Pipeline \<Rightarrow> Pipeline" where
  "stage_mem p =
     (if \<not> exmem_valid (ex_mem p) then p\<lparr>mem_wb := MEM_WB_flush\<rparr>
      else
        let ins = exmem_ins (ex_mem p);
            addr = exmem_alu_result (ex_mem p);
            (mem_data, m1) =
              (case (if mem_read ins then load_by_type (p_mem p) (itype ins) addr else None) of
                 Some r \<Rightarrow> r
               | None \<Rightarrow> (0, p_mem p));
            m2 = (if mem_write ins
                  then store_by_type m1 (itype ins) addr (exmem_rs2_val (ex_mem p))
                  else m1);
            p1 = p\<lparr>p_mem := m2,
                   mem_wb := \<lparr> memwb_ins = ins,
                               memwb_alu_result = exmem_alu_result (ex_mem p),
                               memwb_mem_data = mem_data, memwb_valid = True \<rparr>\<rparr>
        in if itype ins \<noteq> I_UNKNOWN \<and> \<not> is_nop ins
           then p1\<lparr>p_instructions := p_instructions p1 + 1\<rparr> else p1)"

definition stage_wb :: "Pipeline \<Rightarrow> error + Pipeline" where
  "stage_wb p =
     (if \<not> memwb_valid (mem_wb p) then Inr p
      else
        let ins = memwb_ins (mem_wb p)
        in bind (if reg_write ins \<and> rd ins \<noteq> 0
                 then RegisterFile_write (p_regs p) (rd ins)
                        (if mem_to_reg ins then memwb_mem_data (mem_wb p)
                         else memwb_alu_result (mem_wb p))
                 else Inr (p_regs p)) (\<lambda>regs'.
             let p1 = p\<lparr>p_regs := regs'\<rparr>
             in Inr (if itype ins = I_ECALL then p1\<lparr>p_halted := True\<rparr> else p1)))"

subsection \<open>One cycle, and running\<close>

definition Pipeline_cycle :: "Pipeline \<Rightarrow> error + (bool \<times> Pipeline)" where
  "Pipeline_cycle p =
     (if p_halted p then Inr (False, p)
      else
        let p0 = p\<lparr>stalled := detect_load_use_hazard p\<rparr>
        in bind (if stalled p0 then
                   bind (stage_wb (p0\<lparr>stalls := stalls p0 + 1\<rparr>)) (\<lambda>p1.
                   bind (stage_ex (stage_mem p1)) (\<lambda>p2.
                     Inr (p2\<lparr>id_ex := ID_EX_flush\<rparr>)))
                 else
                   bind (stage_wb p0) (\<lambda>p1.
                   bind (stage_ex (stage_mem p1)) (\<lambda>p2.
                   bind (stage_id p2) (\<lambda>p3.
                     Inr (stage_if p3))))) (\<lambda>p4.
             let p5 = p4\<lparr>p_cycles := p_cycles p4 + 1\<rparr>
             in Inr (if has_breakpoint (p_breakpoints p5) (p_pc p5) then False
                     else \<not> p_halted p5, p5)))"

text \<open>\<open>Pipeline::run\<close> is \<open>while (cycle()) {}\<close>; the fuel bounds the number of cycles,
  with the results read as for \<open>CPU_run\<close>.\<close>

fun Pipeline_run :: "nat \<Rightarrow> Pipeline \<Rightarrow> (error + Pipeline) option" where
  "Pipeline_run 0 p = None"
| "Pipeline_run (Suc n) p =
     (case Pipeline_cycle p of
        Inl e \<Rightarrow> Some (Inl e)
      | Inr (continue, p') \<Rightarrow> if continue then Pipeline_run n p' else Some (Inr p'))"

text \<open>The loop of the \<open>step n\<close> command (\<open>Emulator::cmd_step\<close>) in pipeline mode: up to
  \<open>n\<close> cycles, stopping early when \<open>cycle\<close> returns false.\<close>

fun Pipeline_cycles :: "nat \<Rightarrow> Pipeline \<Rightarrow> error + Pipeline" where
  "Pipeline_cycles 0 p = Inr p"
| "Pipeline_cycles (Suc n) p =
     bind (Pipeline_cycle p) (\<lambda>(continue, p').
       if continue then Pipeline_cycles n p' else Inr p')"

section \<open>Program loading (emulator.cpp)\<close>

text \<open>\<open>Emulator::load_source\<close> after a successful assembly: memory and registers are
  reset, the text words go to the text base, the data bytes to the data base, and the
  stack pointer \<open>x2\<close> is initialised. Both executors are reset and share the two.\<close>

definition load_image :: "Word list \<Rightarrow> Byte list \<Rightarrow> error + (Memory \<times> RegisterFile)" where
  "load_image text_words data_bytes =
     bind (RegisterFile_write RegisterFile_reset 2 STACK_TOP) (\<lambda>regs.
       Inr (write_bytes (write_block Memory_reset TEXT_BASE text_words) DATA_BASE data_bytes,
            regs))"

definition CPU_init :: "Memory \<Rightarrow> RegisterFile \<Rightarrow> CPU" where
  "CPU_init m r =
     \<lparr> c_mem = m, c_regs = r, c_pc = TEXT_BASE, c_cycles = 0, c_instructions = 0,
       c_halted = False, last_ins = Instruction_default, c_breakpoints = [] \<rparr>"

section \<open>Assembler: instruction encoders (assembler.cpp)\<close>

text \<open>The encoders take C++ \<open>int\<close>s; an \<open>int\<close> is modelled by its 32-bit two's complement
  pattern, on which \<open><<\<close>, \<open>&\<close> and \<open>|\<close> act bitwise, and \<open>>>\<close> on a signed value is the
  arithmetic shift.\<close>

definition enc_r :: "Word \<Rightarrow> Word \<Rightarrow> Word \<Rightarrow> Word \<Rightarrow> Word \<Rightarrow> Word \<Rightarrow> Word" where
  "enc_r op d f3 s1 s2 f7 =
     push_bit 25 f7 OR push_bit 20 s2 OR push_bit 15 s1 OR push_bit 12 f3 OR
     push_bit 7 d OR op"

definition enc_i :: "Word \<Rightarrow> Word \<Rightarrow> Word \<Rightarrow> Word \<Rightarrow> Word \<Rightarrow> Word" where
  "enc_i op d f3 s1 im =
     push_bit 20 (im AND 0xFFF) OR push_bit 15 s1 OR push_bit 12 f3 OR push_bit 7 d OR op"

definition enc_s :: "Word \<Rightarrow> Word \<Rightarrow> Word \<Rightarrow> Word \<Rightarrow> Word \<Rightarrow> Word" where
  "enc_s op f3 s1 s2 im =
     (let hi = signed_drop_bit 5 im AND 0x7F;
          lo = im AND 0x1F
      in push_bit 25 hi OR push_bit 20 s2 OR push_bit 15 s1 OR push_bit 12 f3 OR
         push_bit 7 lo OR op)"

definition enc_b :: "Word \<Rightarrow> Word \<Rightarrow> Word \<Rightarrow> Word \<Rightarrow> Word \<Rightarrow> Word" where
  "enc_b op f3 s1 s2 im =
     (let b12 = signed_drop_bit 12 im AND 1;
          b11 = signed_drop_bit 11 im AND 1;
          b10_5 = signed_drop_bit 5 im AND 0x3F;
          b4_1 = signed_drop_bit 1 im AND 0xF
      in push_bit 31 b12 OR push_bit 25 b10_5 OR push_bit 20 s2 OR push_bit 15 s1 OR
         push_bit 12 f3 OR push_bit 8 b4_1 OR push_bit 7 b11 OR op)"

definition enc_u :: "Word \<Rightarrow> Word \<Rightarrow> Word \<Rightarrow> Word" where
  "enc_u op d im = (im AND 0xFFFFF000) OR push_bit 7 d OR op"

definition enc_j :: "Word \<Rightarrow> Word \<Rightarrow> Word \<Rightarrow> Word" where
  "enc_j op d im =
     (let b20 = signed_drop_bit 20 im AND 1;
          b19_12 = signed_drop_bit 12 im AND 0xFF;
          b11 = signed_drop_bit 11 im AND 1;
          b10_1 = signed_drop_bit 1 im AND 0x3FF
      in push_bit 31 b20 OR push_bit 21 b10_1 OR push_bit 20 b11 OR push_bit 12 b19_12 OR
         push_bit 7 d OR op)"

text \<open>Both executors as the emulator leaves them after loading a program.\<close>

definition CPU_boot :: "Word list \<Rightarrow> Byte list \<Rightarrow> error + CPU" where
  "CPU_boot text_words data_bytes =
     bind (load_image text_words data_bytes) (\<lambda>(m, r). Inr (CPU_init m r))"

definition Pipeline_boot :: "Word list \<Rightarrow> Byte list \<Rightarrow> error + Pipeline" where
  "Pipeline_boot text_words data_bytes =
     bind (load_image text_words data_bytes) (\<lambda>(m, r). Inr (Pipeline_init m r))"

section \<open>Assembler: strings and operand parsing (assembler.cpp)\<close>

definition is_trim_ws :: "char \<Rightarrow> bool" where
  "is_trim_ws c = (c = CHR '' '' \<or> c = CHR 0x09 \<or> c = CHR 0x0D \<or> c = CHR 0x0A)"

definition trim :: "string \<Rightarrow> string" where
  "trim s = rev (dropWhile is_trim_ws (rev (dropWhile is_trim_ws s)))"

definition tolower :: "char \<Rightarrow> char" where
  "tolower c =
     (let n = (of_char c :: nat) in if 65 \<le> n \<and> n \<le> 90 then char_of (n + 32) else c)"

definition to_lower :: "string \<Rightarrow> string" where
  "to_lower s = map tolower s"

text \<open>The pieces that repeated \<open>std::getline(ss, tok, delim)\<close> reads: a piece ends at a
  delimiter; characters after the last delimiter form a piece only if there are any.\<close>

fun getlines :: "string \<Rightarrow> char \<Rightarrow> string \<Rightarrow> string list" where
  "getlines [] delim cur = (if cur = [] then [] else [rev cur])"
| "getlines (c # cs) delim cur =
     (if c = delim then rev cur # getlines cs delim [] else getlines cs delim (c # cur))"

definition split :: "string \<Rightarrow> char \<Rightarrow> string list" where
  "split s delim = filter (\<lambda>t. t \<noteq> []) (map trim (getlines s delim []))"

subsection \<open>The library conversions\<close>

text \<open>\<open>std::stoi\<close> and \<open>std::stoul\<close> as the C++ standard defines them through
  \<open>strtol\<close> and \<open>strtoul\<close>: leading white space is skipped, a sign is optional, base 16
  admits a \<open>0x\<close> prefix, the longest run of digits is converted and what follows is
  ignored. \<open>None\<close> is an exception: \<open>invalid_argument\<close> when there is no digit,
  \<open>out_of_range\<close> when the value does not fit (\<open>int\<close> has 32 bits, \<open>unsigned long\<close>
  64). \<open>strtoul\<close> negates a value with a minus sign modulo \<open>2^64\<close>.\<close>

definition c_isspace :: "char \<Rightarrow> bool" where
  "c_isspace c = (let n = (of_char c :: int) in n = 32 \<or> (9 \<le> n \<and> n \<le> 13))"

definition digit_val :: "char \<Rightarrow> int option" where
  "digit_val c =
     (let n = (of_char c :: int)
      in if 48 \<le> n \<and> n \<le> 57 then Some (n - 48)
         else if 97 \<le> n \<and> n \<le> 122 then Some (n - 87)
         else if 65 \<le> n \<and> n \<le> 90 then Some (n - 55)
         else None)"

definition is_digit_in :: "int \<Rightarrow> char \<Rightarrow> bool" where
  "is_digit_in base c = (case digit_val c of Some v \<Rightarrow> v < base | None \<Rightarrow> False)"

fun digits_value :: "int \<Rightarrow> string \<Rightarrow> int \<Rightarrow> int" where
  "digits_value base [] acc = acc"
| "digits_value base (c # cs) acc =
     (case digit_val c of
        Some v \<Rightarrow> if v < base then digits_value base cs (acc * base + v) else acc
      | None \<Rightarrow> acc)"

text \<open>The subject sequence of \<open>strtol\<close>: the sign, and the magnitude if there is a digit.\<close>

definition strto :: "int \<Rightarrow> string \<Rightarrow> (bool \<times> int) option" where
  "strto base s =
     (let s1 = dropWhile c_isspace s;
          (neg, s2) = (case s1 of
                         c # cs \<Rightarrow> if c = CHR ''-'' then (True, cs)
                                   else if c = CHR ''+'' then (False, cs) else (False, s1)
                       | [] \<Rightarrow> (False, s1));
          s3 = (case s2 of
                  z # x # h # cs \<Rightarrow>
                    if base = 16 \<and> z = CHR ''0'' \<and> (x = CHR ''x'' \<or> x = CHR ''X'') \<and>
                       is_digit_in 16 h
                    then h # cs else s2
                | _ \<Rightarrow> s2)
      in case s3 of
           c # cs \<Rightarrow> if is_digit_in base c then Some (neg, digits_value base s3 0) else None
         | [] \<Rightarrow> None)"

definition stoi :: "string \<Rightarrow> int option" where
  "stoi s =
     (case strto 10 s of
        None \<Rightarrow> None
      | Some (neg, n) \<Rightarrow>
          (let v = (if neg then - n else n)
           in if - (2 ^ 31) \<le> v \<and> v < 2 ^ 31 then Some v else None))"

definition stoul :: "string \<Rightarrow> int \<Rightarrow> int option" where
  "stoul s base =
     (case strto base s of
        None \<Rightarrow> None
      | Some (neg, n) \<Rightarrow>
          if n < 2 ^ 64 then Some (if neg then (2 ^ 64 - n) mod 2 ^ 64 else n) else None)"

subsection \<open>Registers, immediates, memory operands\<close>

definition abi :: "string \<Rightarrow> int option" where
  "abi = map_of
     [(''zero'', 0), (''ra'', 1), (''sp'', 2), (''gp'', 3), (''tp'', 4),
      (''t0'', 5), (''t1'', 6), (''t2'', 7), (''s0'', 8), (''fp'', 8), (''s1'', 9),
      (''a0'', 10), (''a1'', 11), (''a2'', 12), (''a3'', 13), (''a4'', 14), (''a5'', 15),
      (''a6'', 16), (''a7'', 17), (''s2'', 18), (''s3'', 19), (''s4'', 20), (''s5'', 21),
      (''s6'', 22), (''s7'', 23), (''s8'', 24), (''s9'', 25), (''s10'', 26), (''s11'', 27),
      (''t3'', 28), (''t4'', 29), (''t5'', 30), (''t6'', 31)]"

definition parse_reg :: "string \<Rightarrow> int" where
  "parse_reg s =
     (let r = to_lower (trim s)
      in case r of
           [] \<Rightarrow> - 1
         | c # cs \<Rightarrow>
             if c = CHR ''x'' then
               (case stoi cs of
                  Some n \<Rightarrow> if n \<ge> 0 \<and> n < 32 then n else - 1
                | None \<Rightarrow> - 1)
             else (case abi r of Some n \<Rightarrow> n | None \<Rightarrow> - 1))"

text \<open>\<open>parse_imm\<close> returns the value it stores, or \<open>None\<close> for \<open>false\<close> (nothing is
  stored then).\<close>

definition parse_imm :: "string \<Rightarrow> Word option" where
  "parse_imm s =
     (let t = trim s
      in if t = [] then None
         else if length t > 2 \<and> (t ! 1 = CHR ''x'' \<or> t ! 1 = CHR ''X'') then
           map_option of_int (stoul t 16)
         else if length t > 2 \<and> (t ! 1 = CHR ''b'' \<or> t ! 1 = CHR ''B'') then
           map_option of_int (stoul (drop 2 t) 2)
         else map_option of_int (stoi t))"

text \<open>\<open>parse_mem\<close> returns its result together with what it has stored into \<open>offset\<close> and
  \<open>reg\<close> by then; \<open>None\<close> is a reference left untouched. The substring between the
  parentheses has \<open>size_t\<close> length \<open>rp - lp - 1\<close>, which wraps to the rest of the string
  when the closing parenthesis comes first.\<close>

definition find_char :: "string \<Rightarrow> char \<Rightarrow> nat option" where
  "find_char s c = (if c \<in> set s then Some (length (takeWhile (\<lambda>x. x \<noteq> c) s)) else None)"

definition parse_mem :: "string \<Rightarrow> bool \<times> Word option \<times> int option" where
  "parse_mem s =
     (case (find_char s (CHR ''(''), find_char s (CHR '')'')) of
        (Some lp, Some rp) \<Rightarrow>
          (let off_str = trim (take lp s);
               reg_str = trim (if rp > lp then take (rp - lp - 1) (drop (lp + 1) s)
                               else drop (lp + 1) s)
           in case (if off_str \<noteq> [] then parse_imm off_str else Some 0) of
                None \<Rightarrow> (False, Some 0, None)
              | Some off \<Rightarrow>
                  (let reg = parse_reg reg_str in (reg \<ge> 0, Some off, Some reg)))
      | _ \<Rightarrow> (False, None, None))"

section \<open>Assembler: state, directives, instructions (assembler.cpp)\<close>

record Assembler =
  labels :: "string \<rightharpoonup> Address"
  errors :: "string list"
  text_out :: "Word list"
  data_out :: "Byte list"
  source_map :: "Address \<rightharpoonup> string"
  text_addr :: Address
  data_addr :: Address
  in_data :: bool
  line_num :: int

fun digits_of :: "nat \<Rightarrow> string" where
  "digits_of n =
     (if n < 10 then [char_of (48 + n)] else digits_of (n div 10) @ [char_of (48 + n mod 10)])"

definition to_string :: "int \<Rightarrow> string" where
  "to_string i = (if i < 0 then CHR ''-'' # digits_of (nat (- i)) else digits_of (nat i))"

definition emit :: "Assembler \<Rightarrow> Word \<Rightarrow> string \<Rightarrow> Assembler" where
  "emit st w src =
     st\<lparr>source_map := (source_map st)(text_addr st \<mapsto> src),
        text_out := text_out st @ [w],
        text_addr := text_addr st + 4\<rparr>"

definition error :: "Assembler \<Rightarrow> string \<Rightarrow> Assembler" where
  "error st msg =
     st\<lparr>errors := errors st @ [''Line '' @ to_string (line_num st) @ '': '' @ msg]\<rparr>"

text \<open>The recurring statement \<open>if (!first_pass) emit(w, src); else text_addr += 4;\<close>.\<close>

definition emit_or_reserve :: "Assembler \<Rightarrow> bool \<Rightarrow> Word \<Rightarrow> string \<Rightarrow> Assembler" where
  "emit_or_reserve st first_pass w src =
     (if \<not> first_pass then emit st w src else st\<lparr>text_addr := text_addr st + 4\<rparr>)"

subsection \<open>Directives\<close>

definition escape_char :: "char \<Rightarrow> Byte" where
  "escape_char e =
     (if e = CHR ''n'' then 10 else if e = CHR ''t'' then 9 else if e = CHR ''r'' then 13
      else if e = CHR ''0'' then 0 else if e = CHR 0x5C then 0x5C
      else if e = CHR 0x22 then 0x22 else of_char e)"

text \<open>The bytes of a quoted string, one per loop iteration of the source; a backslash that
  is not the last character consumes the character after it.\<close>

fun asciz_bytes :: "string \<Rightarrow> Byte list" where
  "asciz_bytes [] = []"
| "asciz_bytes [c] = [of_char c]"
| "asciz_bytes (c # e # cs) =
     (if c = CHR 0x5C then escape_char e # asciz_bytes cs
      else of_char c # asciz_bytes (e # cs))"

text \<open>The two \<open>while\<close> loops of \<open>.align\<close>. The fuel bounds the iterations; a loop that
  has not ended after as many steps as there are addresses never ends.\<close>

function align_data :: "int \<Rightarrow> Assembler \<Rightarrow> Word \<Rightarrow> bool \<Rightarrow> Assembler option" where
  "align_data fuel st align first_pass =
     (if data_addr st mod align \<noteq> 0 then
        (if fuel \<le> 0 then None
         else align_data (fuel - 1)
                ((if \<not> first_pass then st\<lparr>data_out := data_out st @ [0]\<rparr> else st)
                   \<lparr>data_addr := data_addr st + 1\<rparr>) align first_pass)
      else Some st)"
  by pat_completeness auto
termination
  by (relation "measure (\<lambda>(fuel, st, align, first_pass). nat fuel)") auto

function align_text :: "int \<Rightarrow> Assembler \<Rightarrow> Word \<Rightarrow> bool \<Rightarrow> Assembler option" where
  "align_text fuel st align first_pass =
     (if text_addr st mod align \<noteq> 0 then
        (if fuel \<le> 0 then None
         else align_text (fuel - 1) (emit_or_reserve st first_pass 0x00000013 [])
                align first_pass)
      else Some st)"
  by pat_completeness auto
termination
  by (relation "measure (\<lambda>(fuel, st, align, first_pass). nat fuel)") auto

definition word_directive :: "Assembler \<Rightarrow> bool \<Rightarrow> nat \<Rightarrow> string \<Rightarrow> Assembler" where
  "word_directive st first_pass width tok =
     (case parse_imm tok of
        None \<Rightarrow> st
      | Some val \<Rightarrow>
          (let st1 = (if \<not> first_pass \<and> in_data st then
                        st\<lparr>data_out := data_out st @
                             map (\<lambda>j. ucast (signed_drop_bit (j * 8) val AND 0xFF)) [0..<width]\<rparr>
                      else st)
           in if in_data st1 then st1\<lparr>data_addr := data_addr st1 + of_nat width\<rparr> else st1))"

definition handle_directive :: "Assembler \<Rightarrow> string \<Rightarrow> bool \<Rightarrow> error + Assembler" where
  "handle_directive st line first_pass =
     (let parts = split line (CHR '' '')
      in if parts = [] then Inr st
         else
           let dir = to_lower (hd parts)
           in if dir = ''.text'' then Inr (st\<lparr>in_data := False\<rparr>)
              else if dir = ''.data'' then Inr (st\<lparr>in_data := True\<rparr>)
              else if dir = ''.globl'' \<or> dir = ''.global'' then Inr st
              else if dir = ''.word'' then
                Inr (foldl (\<lambda>s tok. word_directive s first_pass 4 tok) st (tl parts))
              else if dir = ''.half'' then
                Inr (foldl (\<lambda>s tok. word_directive s first_pass 2 tok) st (tl parts))
              else if dir = ''.byte'' then
                Inr (foldl (\<lambda>s tok. word_directive s first_pass 1 tok) st (tl parts))
              else if dir = ''.asciz'' \<or> dir = ''.string'' then
                (case find_char line (CHR 0x22) of
                   None \<Rightarrow> Inr st
                 | Some q1 \<Rightarrow>
                     (let q2 = length line - 1 - length (takeWhile (\<lambda>x. x \<noteq> CHR 0x22) (rev line))
                      in if q2 > q1 then
                           (let str = take (q2 - q1 - 1) (drop (q1 + 1) line);
                                bs = asciz_bytes str;
                                st1 = (if \<not> first_pass \<and> in_data st
                                       then st\<lparr>data_out := data_out st @ bs @ [0]\<rparr> else st)
                            in Inr (if in_data st1
                                    then st1\<lparr>data_addr := data_addr st1 + of_nat (length bs) + 1\<rparr>
                                    else st1))
                         else Inr st))
              else if dir = ''.space'' then
                (if length parts > 1 then
                   (case parse_imm (parts ! 1) of
                      None \<Rightarrow> Inr st
                    | Some sz \<Rightarrow>
                        (let st1 = (if \<not> first_pass \<and> in_data st
                                    then st\<lparr>data_out := data_out st @ replicate (nat (sint sz)) 0\<rparr>
                                    else st)
                         in Inr (if in_data st1 then st1\<lparr>data_addr := data_addr st1 + sz\<rparr>
                                 else st1)))
                 else Inr st)
              else if dir = ''.align'' then
                (if length parts > 1 then
                   (case parse_imm (parts ! 1) of
                      None \<Rightarrow> Inr st
                    | Some p \<Rightarrow>
                        if sint p < 0 \<or> sint p \<ge> 32 then Inl Undefined
                        else
                          (let align = (push_bit (nat (sint p)) 1 :: Word)
                           in case (if in_data st then align_data (2 ^ 32) st align first_pass
                                    else align_text (2 ^ 30) st align first_pass) of
                                None \<Rightarrow> Inl Diverges
                              | Some st1 \<Rightarrow> Inr st1))
                 else Inr st)
              else Inr st)"

subsection \<open>Pseudo-instructions\<close>

text \<open>The \<open>int\<close> that \<open>parse_reg\<close> returns enters the encoders as its bit pattern.\<close>

definition reg_bits :: "string \<Rightarrow> Word" where
  "reg_bits s = word_of_int (parse_reg s)"

text \<open>The body shared by the label-only branch pseudo-instructions (\<open>bnez\<close>, \<open>blez\<close>,
  \<open>bgez\<close>, \<open>bltz\<close>, \<open>bgtz\<close>, \<open>bgt\<close>, \<open>ble\<close>, \<open>bgtu\<close>, \<open>bleu\<close>): in pass 2 the label is
  looked up and the branch emitted if it is found; there is no \<open>else\<close>.\<close>

definition branch_to_label ::
    "Assembler \<Rightarrow> bool \<Rightarrow> Word \<Rightarrow> Word \<Rightarrow> Word \<Rightarrow> string \<Rightarrow> string \<Rightarrow> Assembler" where
  "branch_to_label st first_pass f3 a b label src =
     (if \<not> first_pass then
        (case labels st label of
           Some addr \<Rightarrow> emit st (enc_b 0b1100011 f3 a b (addr - text_addr st)) src
         | None \<Rightarrow> st)
      else st\<lparr>text_addr := text_addr st + 4\<rparr>)"

text \<open>The body shared by \<open>call\<close> and \<open>tail\<close>: a label-only jump that reports a missing
  label.\<close>

definition jump_to_label :: "Assembler \<Rightarrow> bool \<Rightarrow> Word \<Rightarrow> string \<Rightarrow> string \<Rightarrow> Assembler" where
  "jump_to_label st first_pass d label src =
     (if \<not> first_pass then
        (case labels st label of
           Some addr \<Rightarrow> emit st (enc_j 0b1101111 d (addr - text_addr st)) src
         | None \<Rightarrow> error st (''Unknown label: '' @ label))
      else st\<lparr>text_addr := text_addr st + 4\<rparr>)"

text \<open>\<open>handle_pseudo\<close> returns \<open>None\<close> for \<open>false\<close> (not a pseudo-instruction).\<close>

definition handle_pseudo ::
    "Assembler \<Rightarrow> string \<Rightarrow> string list \<Rightarrow> string \<Rightarrow> bool \<Rightarrow> Assembler option" where
  "handle_pseudo st mnem ops src first_pass =
     (if mnem = ''nop'' then Some (emit_or_reserve st first_pass 0x00000013 src)
      else if mnem = ''mv'' \<and> length ops = 2 then
        Some (emit_or_reserve st first_pass
                (enc_i 0b0010011 (reg_bits (ops ! 0)) 0 (reg_bits (ops ! 1)) 0) src)
      else if mnem = ''not'' \<and> length ops = 2 then
        Some (emit_or_reserve st first_pass
                (enc_i 0b0010011 (reg_bits (ops ! 0)) 0b100 (reg_bits (ops ! 1)) (- 1)) src)
      else if mnem = ''neg'' \<and> length ops = 2 then
        Some (emit_or_reserve st first_pass
                (enc_r 0b0110011 (reg_bits (ops ! 0)) 0 0 (reg_bits (ops ! 1)) 0b0100000) src)
      else if mnem = ''seqz'' \<and> length ops = 2 then
        Some (emit_or_reserve st first_pass
                (enc_i 0b0010011 (reg_bits (ops ! 0)) 0b011 (reg_bits (ops ! 1)) 1) src)
      else if mnem = ''snez'' \<and> length ops = 2 then
        Some (emit_or_reserve st first_pass
                (enc_r 0b0110011 (reg_bits (ops ! 0)) 0b011 0 (reg_bits (ops ! 1)) 0) src)
      else if mnem = ''sltz'' \<and> length ops = 2 then
        Some (emit_or_reserve st first_pass
                (enc_r 0b0110011 (reg_bits (ops ! 0)) 0b010 (reg_bits (ops ! 1)) 0 0) src)
      else if mnem = ''sgtz'' \<and> length ops = 2 then
        Some (emit_or_reserve st first_pass
                (enc_r 0b0110011 (reg_bits (ops ! 0)) 0b010 0 (reg_bits (ops ! 1)) 0) src)
      else if mnem = ''li'' \<and> length ops = 2 then
        (let d = reg_bits (ops ! 0)
         in case parse_imm (ops ! 1) of
              None \<Rightarrow> Some (error st ''Invalid immediate'')
            | Some im \<Rightarrow>
                if - 2048 \<le> sint im \<and> sint im < 2048 then
                  Some (emit_or_reserve st first_pass (enc_i 0b0010011 d 0 0 im) src)
                else
                  (let upper = signed_drop_bit 12 (im + 0x800) AND 0xFFFFF;
                       lower = im - push_bit 12 upper
                   in if \<not> first_pass then
                        (let st1 = emit st (enc_u 0b0110111 d (push_bit 12 upper)) src
                         in Some (if lower \<noteq> 0 then emit st1 (enc_i 0b0010011 d 0 d lower) src
                                  else st1))
                      else
                        (let st1 = st\<lparr>text_addr := text_addr st + 4\<rparr>
                         in Some (if lower \<noteq> 0 then st1\<lparr>text_addr := text_addr st1 + 4\<rparr>
                                  else st1))))
      else if mnem = ''la'' \<and> length ops = 2 then
        (let d = reg_bits (ops ! 0);
             label = trim (ops ! 1)
         in if \<not> first_pass then
              (case labels st label of
                 None \<Rightarrow> Some (error st (''Unknown label: '' @ label))
               | Some addr \<Rightarrow>
                   (let off = addr - text_addr st;
                        upper = signed_drop_bit 12 (off + 0x800) AND 0xFFFFF;
                        lower = off - push_bit 12 upper;
                        st1 = emit st (enc_u 0b0010111 d (push_bit 12 upper)) src
                    in Some (emit st1 (enc_i 0b0010011 d 0 d lower) src)))
            else Some (st\<lparr>text_addr := text_addr st + 8\<rparr>))
      else if mnem = ''j'' \<and> length ops = 1 then
        (if \<not> first_pass then
           (case parse_imm (ops ! 0) of
              Some off \<Rightarrow> Some (emit st (enc_j 0b1101111 0 off) src)
            | None \<Rightarrow>
                (case labels st (ops ! 0) of
                   Some addr \<Rightarrow> Some (emit st (enc_j 0b1101111 0 (addr - text_addr st)) src)
                 | None \<Rightarrow> Some (error st (''Unknown label: '' @ ops ! 0))))
         else Some (st\<lparr>text_addr := text_addr st + 4\<rparr>))
      else if mnem = ''jr'' \<and> length ops = 1 then
        Some (emit_or_reserve st first_pass (enc_i 0b1100111 0 0 (reg_bits (ops ! 0)) 0) src)
      else if mnem = ''ret'' then
        Some (emit_or_reserve st first_pass (enc_i 0b1100111 0 0 1 0) src)
      else if mnem = ''call'' \<and> length ops = 1 then
        Some (jump_to_label st first_pass 1 (ops ! 0) src)
      else if mnem = ''tail'' \<and> length ops = 1 then
        Some (jump_to_label st first_pass 0 (ops ! 0) src)
      else if mnem = ''beqz'' \<and> length ops = 2 then
        (let s = reg_bits (ops ! 0)
         in if \<not> first_pass then
              (case parse_imm (ops ! 1) of
                 Some off \<Rightarrow> Some (emit st (enc_b 0b1100011 0b000 s 0 off) src)
               | None \<Rightarrow>
                   (case labels st (ops ! 1) of
                      Some addr \<Rightarrow>
                        Some (emit st (enc_b 0b1100011 0b000 s 0 (addr - text_addr st)) src)
                    | None \<Rightarrow> Some st))
            else Some (st\<lparr>text_addr := text_addr st + 4\<rparr>))
      else if mnem = ''bnez'' \<and> length ops = 2 then
        Some (branch_to_label st first_pass 0b001 (reg_bits (ops ! 0)) 0 (ops ! 1) src)
      else if mnem = ''blez'' \<and> length ops = 2 then
        Some (branch_to_label st first_pass 0b101 0 (reg_bits (ops ! 0)) (ops ! 1) src)
      else if mnem = ''bgez'' \<and> length ops = 2 then
        Some (branch_to_label st first_pass 0b101 (reg_bits (ops ! 0)) 0 (ops ! 1) src)
      else if mnem = ''bltz'' \<and> length ops = 2 then
        Some (branch_to_label st first_pass 0b100 (reg_bits (ops ! 0)) 0 (ops ! 1) src)
      else if mnem = ''bgtz'' \<and> length ops = 2 then
        Some (branch_to_label st first_pass 0b100 0 (reg_bits (ops ! 0)) (ops ! 1) src)
      else if mnem = ''bgt'' \<and> length ops = 3 then
        Some (branch_to_label st first_pass 0b100 (reg_bits (ops ! 1)) (reg_bits (ops ! 0))
                (ops ! 2) src)
      else if mnem = ''ble'' \<and> length ops = 3 then
        Some (branch_to_label st first_pass 0b101 (reg_bits (ops ! 1)) (reg_bits (ops ! 0))
                (ops ! 2) src)
      else if mnem = ''bgtu'' \<and> length ops = 3 then
        Some (branch_to_label st first_pass 0b110 (reg_bits (ops ! 1)) (reg_bits (ops ! 0))
                (ops ! 2) src)
      else if mnem = ''bleu'' \<and> length ops = 3 then
        Some (branch_to_label st first_pass 0b111 (reg_bits (ops ! 1)) (reg_bits (ops ! 0))
                (ops ! 2) src)
      else None)"

subsection \<open>Real instructions\<close>

definition r_ops :: "string \<Rightarrow> (Word \<times> Word) option" where
  "r_ops = map_of
     [(''add'', (0b000, 0b0000000)), (''sub'', (0b000, 0b0100000)),
      (''sll'', (0b001, 0b0000000)), (''slt'', (0b010, 0b0000000)),
      (''sltu'', (0b011, 0b0000000)), (''xor'', (0b100, 0b0000000)),
      (''srl'', (0b101, 0b0000000)), (''sra'', (0b101, 0b0100000)),
      (''or'', (0b110, 0b0000000)), (''and'', (0b111, 0b0000000)),
      (''mul'', (0b000, 0b0000001)), (''mulh'', (0b001, 0b0000001)),
      (''mulhsu'', (0b010, 0b0000001)), (''mulhu'', (0b011, 0b0000001)),
      (''div'', (0b100, 0b0000001)), (''divu'', (0b101, 0b0000001)),
      (''rem'', (0b110, 0b0000001)), (''remu'', (0b111, 0b0000001))]"

definition i_arith :: "string \<Rightarrow> Word option" where
  "i_arith = map_of
     [(''addi'', 0b000), (''slti'', 0b010), (''sltiu'', 0b011),
      (''xori'', 0b100), (''ori'', 0b110), (''andi'', 0b111)]"

definition loads :: "string \<Rightarrow> Word option" where
  "loads = map_of
     [(''lb'', 0b000), (''lh'', 0b001), (''lw'', 0b010), (''lbu'', 0b100), (''lhu'', 0b101)]"

definition stores :: "string \<Rightarrow> Word option" where
  "stores = map_of [(''sb'', 0b000), (''sh'', 0b001), (''sw'', 0b010)]"

definition branches :: "string \<Rightarrow> Word option" where
  "branches = map_of
     [(''beq'', 0b000), (''bne'', 0b001), (''blt'', 0b100),
      (''bge'', 0b101), (''bltu'', 0b110), (''bgeu'', 0b111)]"

text \<open>A jump or branch target that is an immediate or else a label, reporting a missing
  label: the shape shared by the real branches and \<open>jal\<close>.\<close>

definition resolve_target :: "Assembler \<Rightarrow> string \<Rightarrow> (Word \<Rightarrow> Word) \<Rightarrow> string \<Rightarrow> Assembler" where
  "resolve_target st target enc src =
     (case parse_imm target of
        Some off \<Rightarrow> emit st (enc off) src
      | None \<Rightarrow>
          (case labels st target of
             Some addr \<Rightarrow> emit st (enc (addr - text_addr st)) src
           | None \<Rightarrow> error st (''Unknown label: '' @ target)))"

text \<open>Several locals of \<open>handle_instruction\<close> are declared without an initialiser and set
  only by a successful \<open>parse_imm\<close> or \<open>parse_mem\<close>. Pass 2 reads them when it encodes;
  reading one that was never set is undefined behaviour, \<open>Inl Undefined\<close> here. Pass 1
  does not read them.\<close>

definition handle_instruction ::
    "Assembler \<Rightarrow> string \<Rightarrow> string list \<Rightarrow> string \<Rightarrow> bool \<Rightarrow> error + Assembler" where
  "handle_instruction st mnem ops src first_pass =
     (let reserve = st\<lparr>text_addr := text_addr st + 4\<rparr>
      in if r_ops mnem \<noteq> None \<and> length ops = 3 then
           (case r_ops mnem of
              Some (f3, f7) \<Rightarrow>
                Inr (emit_or_reserve st first_pass
                       (enc_r 0b0110011 (reg_bits (ops ! 0)) f3 (reg_bits (ops ! 1))
                          (reg_bits (ops ! 2)) f7) src)
            | None \<Rightarrow> Inr st)
         else if i_arith mnem \<noteq> None \<and> length ops = 3 then
           (if first_pass then Inr reserve
            else case (i_arith mnem, parse_imm (ops ! 2)) of
                   (Some f3, Some im) \<Rightarrow>
                     Inr (emit st (enc_i 0b0010011 (reg_bits (ops ! 0)) f3 (reg_bits (ops ! 1)) im)
                            src)
                 | _ \<Rightarrow> Inl Undefined)
         else if (mnem = ''slli'' \<or> mnem = ''srli'' \<or> mnem = ''srai'') \<and> length ops = 3 then
           (if first_pass then Inr reserve
            else case parse_imm (ops ! 2) of
                   None \<Rightarrow> Inl Undefined
                 | Some shamt \<Rightarrow>
                     (let f3 = (if mnem = ''slli'' then 0b001 else 0b101 :: Word);
                          f7 = (if mnem = ''srai'' then 0b0100000 else 0b0000000 :: Word);
                          ins = push_bit 25 f7 OR push_bit 20 (shamt AND 0x1F) OR
                                push_bit 15 (reg_bits (ops ! 1)) OR push_bit 12 f3 OR
                                push_bit 7 (reg_bits (ops ! 0)) OR 0b0010011
                      in Inr (emit st ins src)))
         else if loads mnem \<noteq> None \<and> length ops = 2 then
           (if first_pass then Inr reserve
            else case (loads mnem, parse_mem (ops ! 1)) of
                   (Some f3, (ok, Some off, Some r1)) \<Rightarrow>
                     Inr (emit st (enc_i 0b0000011 (reg_bits (ops ! 0)) f3 (word_of_int r1) off)
                            src)
                 | _ \<Rightarrow> Inl Undefined)
         else if stores mnem \<noteq> None \<and> length ops = 2 then
           (if first_pass then Inr reserve
            else case (stores mnem, parse_mem (ops ! 1)) of
                   (Some f3, (ok, Some off, Some r1)) \<Rightarrow>
                     Inr (emit st (enc_s 0b0100011 f3 (word_of_int r1) (reg_bits (ops ! 0)) off)
                            src)
                 | _ \<Rightarrow> Inl Undefined)
         else if branches mnem \<noteq> None \<and> length ops = 3 then
           (if first_pass then Inr reserve
            else case branches mnem of
                   Some f3 \<Rightarrow>
                     Inr (resolve_target st (ops ! 2)
                            (enc_b 0b1100011 f3 (reg_bits (ops ! 0)) (reg_bits (ops ! 1))) src)
                 | None \<Rightarrow> Inr st)
         else if mnem = ''jal'' then
           (if length ops = 1 then
              (if first_pass then Inr reserve
               else Inr (resolve_target st (ops ! 0) (enc_j 0b1101111 1) src))
            else if length ops = 2 then
              (if first_pass then Inr reserve
               else Inr (resolve_target st (ops ! 1) (enc_j 0b1101111 (reg_bits (ops ! 0))) src))
            else Inr (error st ''Invalid jal format''))
         else if mnem = ''jalr'' then
           (let (d, r1, off) =
                  (if length ops = 1 then (1, reg_bits (ops ! 0), 0)
                   else if length ops = 2 then
                     (case parse_mem (ops ! 1) of
                        (ok, off_opt, reg_opt) \<Rightarrow>
                          (reg_bits (ops ! 0),
                           (case reg_opt of Some r \<Rightarrow> word_of_int r | None \<Rightarrow> 0),
                           (case off_opt of Some off \<Rightarrow> off | None \<Rightarrow> 0)))
                   else if length ops = 3 then
                     (reg_bits (ops ! 0), reg_bits (ops ! 1),
                      (case parse_imm (ops ! 2) of Some off \<Rightarrow> off | None \<Rightarrow> 0))
                   else (1, 0, 0))
            in Inr (emit_or_reserve st first_pass (enc_i 0b1100111 d 0 r1 off) src))
         else if mnem = ''lui'' \<and> length ops = 2 then
           (if first_pass then Inr reserve
            else case parse_imm (ops ! 1) of
                   None \<Rightarrow> Inl Undefined
                 | Some im \<Rightarrow>
                     Inr (emit st (enc_u 0b0110111 (reg_bits (ops ! 0)) (push_bit 12 im)) src))
         else if mnem = ''auipc'' \<and> length ops = 2 then
           (if first_pass then Inr reserve
            else case parse_imm (ops ! 1) of
                   None \<Rightarrow> Inl Undefined
                 | Some im \<Rightarrow>
                     Inr (emit st (enc_u 0b0010111 (reg_bits (ops ! 0)) (push_bit 12 im)) src))
         else if mnem = ''ecall'' then Inr (emit_or_reserve st first_pass 0x00000073 src)
         else if mnem = ''ebreak'' then Inr (emit_or_reserve st first_pass 0x00100073 src)
         else Inr (error st (''Unknown instruction: '' @ mnem)))"

subsection \<open>Lines and passes\<close>

definition is_blank :: "char \<Rightarrow> bool" where
  "is_blank c = (c = CHR '' '' \<or> c = CHR 0x09)"

definition process_line :: "Assembler \<Rightarrow> string \<Rightarrow> bool \<Rightarrow> error + Assembler" where
  "process_line st orig first_pass =
     (let line0 = trim orig;
          line1 = (if CHR ''#'' \<in> set line0
                   then trim (takeWhile (\<lambda>c. c \<noteq> CHR ''#'') line0) else line0)
      in if line1 = [] then Inr st
         else
           let (st1, line2) =
                 (if CHR '':'' \<in> set line1 then
                    (let label = trim (takeWhile (\<lambda>c. c \<noteq> CHR '':'') line1)
                     in ((if first_pass
                          then st\<lparr>labels := (labels st)
                                   (label \<mapsto> (if in_data st then data_addr st else text_addr st))\<rparr>
                          else st),
                         trim (tl (dropWhile (\<lambda>c. c \<noteq> CHR '':'') line1))))
                  else (st, line1))
           in if line2 = [] then Inr st1
              else if hd line2 = CHR ''.'' then handle_directive st1 line2 first_pass
              else if \<not> in_data st1 then
                (let (mnem, rest) =
                       (if \<exists>c \<in> set line2. is_blank c then
                          (to_lower (trim (takeWhile (\<lambda>c. \<not> is_blank c) line2)),
                           trim (dropWhile (\<lambda>c. \<not> is_blank c) line2))
                        else (to_lower line2, []));
                     ops = split rest (CHR '','')
                 in case handle_pseudo st1 mnem ops orig first_pass of
                      Some st2 \<Rightarrow> Inr st2
                    | None \<Rightarrow> handle_instruction st1 mnem ops orig first_pass)
              else Inr st1)"

text \<open>One sweep over the lines: \<open>line_num++\<close>, then \<open>process_line\<close>.\<close>

fun run_pass :: "Assembler \<Rightarrow> string list \<Rightarrow> bool \<Rightarrow> error + Assembler" where
  "run_pass st [] first_pass = Inr st"
| "run_pass st (l # ls) first_pass =
     bind (process_line (st\<lparr>line_num := line_num st + 1\<rparr>) l first_pass)
       (\<lambda>st'. run_pass st' ls first_pass)"

record Result =
  success :: bool
  res_text :: "Word list"
  res_data :: "Byte list"
  res_text_addr :: Address
  res_data_addr :: Address
  symbols :: "string \<rightharpoonup> Address"
  res_source_map :: "Address \<rightharpoonup> string"
  res_errors :: "string list"

definition Assembler_clear :: Assembler where
  "Assembler_clear =
     \<lparr> labels = Map.empty, errors = [], text_out = [], data_out = [],
       source_map = Map.empty, text_addr = TEXT_BASE, data_addr = DATA_BASE,
       in_data = False, line_num = 0 \<rparr>"

definition source_lines :: "string \<Rightarrow> string list" where
  "source_lines source = getlines source (CHR 0x0A) []"

definition pass1 :: "string \<Rightarrow> error + Assembler" where
  "pass1 source = run_pass Assembler_clear (source_lines source) True"

definition pass2 :: "Assembler \<Rightarrow> string \<Rightarrow> error + Assembler" where
  "pass2 st1 source =
     run_pass (st1\<lparr>text_addr := TEXT_BASE, data_addr := DATA_BASE, in_data := False,
                   line_num := 0\<rparr>) (source_lines source) False"

definition assemble :: "string \<Rightarrow> error + Result" where
  "assemble source =
     bind (pass1 source) (\<lambda>st1.
     bind (pass2 st1 source) (\<lambda>st2.
       Inr \<lparr> success = (errors st2 = []), res_text = text_out st2, res_data = data_out st2,
             res_text_addr = TEXT_BASE, res_data_addr = DATA_BASE, symbols = labels st2,
             res_source_map = source_map st2, res_errors = errors st2 \<rparr>))"

text \<open>A source text from its lines, each ended by a newline.\<close>

definition unlines :: "string list \<Rightarrow> string" where
  "unlines ls = concat (map (\<lambda>l. l @ [CHR 0x0A]) ls)"

section \<open>Loading a source text (emulator.cpp)\<close>

text \<open>\<open>Emulator::load_source\<close>: assemble, refuse on errors, otherwise load the image.\<close>

definition load_source :: "string \<Rightarrow> error + (Memory \<times> RegisterFile)" where
  "load_source source =
     bind (assemble source) (\<lambda>r.
       if \<not> success r then Inl AssemblyFailed
       else load_image (res_text r) (res_data r))"

definition Pipeline_load :: "string \<Rightarrow> error + Pipeline" where
  "Pipeline_load source = bind (load_source source) (\<lambda>(m, r). Inr (Pipeline_init m r))"

definition CPU_load :: "string \<Rightarrow> error + CPU" where
  "CPU_load source = bind (load_source source) (\<lambda>(m, r). Inr (CPU_init m r))"

text \<open>The loop of the \<open>step n\<close> command in single-cycle mode.\<close>

fun CPU_steps :: "nat \<Rightarrow> CPU \<Rightarrow> error + CPU" where
  "CPU_steps 0 c = Inr c"
| "CPU_steps (Suc n) c =
     bind (CPU_step c) (\<lambda>(continue, c').
       if continue then CPU_steps n c' else Inr c')"

section \<open>The programs of the scenarios\<close>

definition load_use_source :: string where
  "load_use_source =
     unlines [''addi x1,x0,0x100'', ''sw x0,0(x1)'', ''lw x2,0(x1)'', ''addi x3,x2,1'']"

definition taken_branch_source :: string where
  "taken_branch_source =
     unlines [''addi x1,x0,1'', ''addi x2,x0,2'', ''beq x1,x1,skip'', ''addi x2,x0,99'',
              ''skip: addi x3,x2,0'']"

text \<open>A halting program with a register dependency at distance two.\<close>

definition distance_two_source :: string where
  "distance_two_source = unlines [''addi x1,x0,5'', ''nop'', ''addi x3,x1,0'', ''ecall'']"

section \<open>Reachable pipeline states\<close>

text \<open>The states a \<open>Pipeline\<close> object can be in: as constructed over any memory and
  register file, and then after any sequence of cycles and of calls of its other public
  operations (reset, PC, switches, breakpoints); the emulator may also change the shared
  memory and register file between cycles.\<close>

inductive reachable :: "Pipeline \<Rightarrow> bool" where
  constructed: "reachable (Pipeline_init m r)"
| cycle: "reachable p \<Longrightarrow> Pipeline_cycle p = Inr (continue, p') \<Longrightarrow> reachable p'"
| reset: "reachable p \<Longrightarrow> reachable (Pipeline_reset p)"
| set_pc: "reachable p \<Longrightarrow> reachable (p\<lparr>p_pc := addr, p_next_pc := addr + 4\<rparr>)"
| set_hazard_detection: "reachable p \<Longrightarrow> reachable (p\<lparr>hazard_detection := enabled\<rparr>)"
| set_forwarding: "reachable p \<Longrightarrow> reachable (p\<lparr>forwarding := enabled\<rparr>)"
| breakpoints: "reachable p \<Longrightarrow> reachable (p\<lparr>p_breakpoints := bps\<rparr>)"
| shared: "reachable p \<Longrightarrow> reachable (p\<lparr>p_mem := m, p_regs := r\<rparr>)"

section \<open>Properties of the ALU\<close>

lemma abs_div_le: "\<bar>x\<bar> div \<bar>y\<bar> \<le> \<bar>x::int\<bar>"
  by (metis abs_0 abs_ge_zero div_by_0 div_by_1 linorder_not_less
    zabs_less_one_iff zdiv_mono2)

lemma abs_div_le2:
  "2 \<le> \<bar>y\<bar> \<Longrightarrow> \<bar>x\<bar> \<le> 2 ^ 31 \<Longrightarrow> \<bar>x\<bar> div \<bar>y\<bar> < (2 ^ 31 :: int)"
proof -
  assume a: "2 \<le> \<bar>y\<bar>" "\<bar>x\<bar> \<le> 2 ^ 31"
  have "\<bar>x\<bar> div \<bar>y\<bar> \<le> \<bar>x\<bar> div 2"
    using a by (intro zdiv_mono2) auto
  also have "\<dots> \<le> 2 ^ 31 div 2" using a by (intro zdiv_mono1) auto
  finally show ?thesis by simp
qed

text \<open>The truncating quotient of two 32-bit signed values fits in 32 bits, the overflow
  case apart.\<close>

lemma sdiv_bounds:
  fixes x y :: int
  assumes "- (2 ^ 31) \<le> x" "x < 2 ^ 31" "y \<noteq> 0" "\<not> (x = - (2 ^ 31) \<and> y = - 1)"
  shows "- (2 ^ 31) \<le> x sdiv y \<and> x sdiv y < 2 ^ 31"
proof -
  define q where "q = \<bar>x\<bar> div \<bar>y\<bar>"
  have q0: "0 \<le> q" by (simp add: q_def div_int_pos_iff)
  have q1: "q \<le> \<bar>x\<bar>" unfolding q_def by (rule abs_div_le)
  have q2: "\<bar>x\<bar> < 2 ^ 31 \<or> 2 \<le> \<bar>y\<bar> \<Longrightarrow> q < 2 ^ 31"
    using q1 abs_div_le2 [of y x] assms(1,2) unfolding q_def by auto
  have e: "x sdiv y = sgn x * sgn y * q" by (simp add: signed_divide_int_def q_def)
  consider "x = - (2 ^ 31)" "y = 1" | "x = - (2 ^ 31)" "2 \<le> \<bar>y\<bar>" | "\<bar>x\<bar> < 2 ^ 31"
  proof -
    have "y = 1 \<or> y = - 1 \<or> 2 \<le> \<bar>y\<bar>" using assms(3) by arith
    moreover have "x = - (2 ^ 31) \<or> \<bar>x\<bar> < 2 ^ 31" using assms(1,2) by arith
    ultimately show ?thesis using that assms(4) by blast
  qed
  then show ?thesis
  proof cases
    case 1 then show ?thesis by (simp add: e q_def)
  next
    case 2
    then have "q < 2 ^ 31" using q2 by simp
    then show ?thesis using q0 unfolding e by (cases "0 < y") (auto simp: 2 sgn_if)
  next
    case 3
    then have "q < 2 ^ 31" using q2 by simp
    then show ?thesis using q0 unfolding e by (auto simp: sgn_if)
  qed
qed

lemma smod_bounds:
  fixes x y :: int
  assumes "- (2 ^ 31) \<le> x" "x < 2 ^ 31" "y \<noteq> 0"
  shows "- (2 ^ 31) \<le> x smod y \<and> x smod y < 2 ^ 31"
proof -
  define r where "r = \<bar>x\<bar> mod \<bar>y\<bar>"
  have r0: "0 \<le> r" using assms by (simp add: r_def)
  have r1: "r \<le> \<bar>x\<bar>" unfolding r_def by (simp add: zmod_le_nonneg_dividend)
  have e: "x smod y = sgn x * r" by (simp add: signed_modulo_int_def r_def)
  show ?thesis using r0 r1 assms unfolding e by (auto simp: sgn_if)
qed

lemma sint_eq_0_iff32: "sint (b::32 word) = 0 \<longleftrightarrow> b = 0"
  by (metis sint_0 signed_word_eqI)

lemma sint_eq_m1_iff32: "sint (b::32 word) = - 1 \<longleftrightarrow> b = - 1"
  by (metis sint_n1 signed_word_eqI)

lemma sint_eq_min_iff32: "sint (a::32 word) = - 2147483648 \<longleftrightarrow> a = 0x80000000"
proof -
  have "sint (0x80000000 :: 32 word) = - 2147483648" by simp
  then show ?thesis by (metis signed_word_eqI)
qed

lemma sint_range32: "- (2 ^ 31) \<le> sint (a::32 word) \<and> sint a < 2 ^ 31"
  using sint_ge [of a] sint_lt [of a] by simp

lemma sint_word_of_int32:
  "- (2 ^ 31) \<le> x \<Longrightarrow> x < 2 ^ 31 \<Longrightarrow> sint (word_of_int x :: 32 word) = x"
  by (simp add: sint_sbintrunc' signed_take_bit_int_eq_self)

lemma s32_div_ok:
  assumes "b \<noteq> 0" "\<not> (a = 0x80000000 \<and> b = - 1)"
  shows "\<exists>q. s32_div a b = Inr q \<and> sint q = sint a sdiv sint b"
proof -
  have g: "\<not> (sint b = 0 \<or> (sint a = - (2 ^ 31) \<and> sint b = - 1))"
    using assms by (simp add: sint_eq_0_iff32 sint_eq_m1_iff32 sint_eq_min_iff32)
  then have "- (2 ^ 31) \<le> sint a sdiv sint b \<and> sint a sdiv sint b < 2 ^ 31"
    using sint_range32 [of a] by (intro sdiv_bounds) auto
  then have "sint (word_of_int (sint a sdiv sint b) :: 32 word) = sint a sdiv sint b"
    by (simp add: sint_word_of_int32)
  then show ?thesis using g by (simp add: s32_div_def)
qed

lemma s32_rem_ok:
  assumes "b \<noteq> 0" "\<not> (a = 0x80000000 \<and> b = - 1)"
  shows "\<exists>r. s32_rem a b = Inr r \<and> sint r = sint a smod sint b"
proof -
  have g: "\<not> (sint b = 0 \<or> (sint a = - (2 ^ 31) \<and> sint b = - 1))"
    using assms by (simp add: sint_eq_0_iff32 sint_eq_m1_iff32 sint_eq_min_iff32)
  then have "- (2 ^ 31) \<le> sint a smod sint b \<and> sint a smod sint b < 2 ^ 31"
    using sint_range32 [of a] by (intro smod_bounds) auto
  then have "sint (word_of_int (sint a smod sint b) :: 32 word) = sint a smod sint b"
    by (simp add: sint_word_of_int32)
  then show ?thesis using g by (simp add: s32_rem_def)
qed

text \<open>The guards of the ALU keep every operand pair away from the undefined cases of the
  host's division: the ALU always returns a word.\<close>

lemma ALU_execute_total: "\<exists>r. ALU_execute op a b = Inr r"
proof (cases op)
  case A_DIV then show ?thesis using s32_div_ok [of b a] by auto
next
  case A_REM then show ?thesis using s32_rem_ok [of b a] by auto
qed (auto simp: u32_div_def u32_rem_def)

text \<open>Claim C9. For all 32-bit operands \<open>a\<close> and \<open>b\<close>: \<open>DIV\<close> and \<open>DIVU\<close> by zero return
  \<open>0xFFFFFFFF\<close>; \<open>REM\<close> and \<open>REMU\<close> by zero return the dividend; \<open>INT_MIN / -1\<close> gives
  \<open>INT_MIN\<close> for \<open>DIV\<close> and \<open>0\<close> for \<open>REM\<close>; in every other case \<open>DIV\<close> and \<open>REM\<close> are
  the signed quotient and remainder (truncating towards zero, read through \<open>sint\<close>), and
  \<open>DIVU\<close> and \<open>REMU\<close> the unsigned ones (read through \<open>unat\<close>); and no operand pair
  makes the ALU fault, for any operation.\<close>

theorem ALU_division:
  "ALU_execute A_DIV a 0 = Inr 0xFFFFFFFF \<and>
   ALU_execute A_DIVU a 0 = Inr 0xFFFFFFFF \<and>
   ALU_execute A_REM a 0 = Inr a \<and>
   ALU_execute A_REMU a 0 = Inr a \<and>
   ALU_execute A_DIV 0x80000000 (- 1) = Inr 0x80000000 \<and>
   ALU_execute A_REM 0x80000000 (- 1) = Inr 0 \<and>
   (b \<noteq> 0 \<and> \<not> (a = 0x80000000 \<and> b = - 1) \<longrightarrow>
      (\<exists>q r. ALU_execute A_DIV a b = Inr q \<and> sint q = sint a sdiv sint b \<and>
             ALU_execute A_REM a b = Inr r \<and> sint r = sint a smod sint b)) \<and>
   (b \<noteq> 0 \<longrightarrow>
      (\<exists>q r. ALU_execute A_DIVU a b = Inr q \<and> unat q = unat a div unat b \<and>
             ALU_execute A_REMU a b = Inr r \<and> unat r = unat a mod unat b)) \<and>
   (\<forall>op. \<exists>r. ALU_execute op a b = Inr r)"
proof -
  have signed: "\<exists>q r. ALU_execute A_DIV a b = Inr q \<and> sint q = sint a sdiv sint b \<and>
             ALU_execute A_REM a b = Inr r \<and> sint r = sint a smod sint b"
    if "b \<noteq> 0" "\<not> (a = 0x80000000 \<and> b = - 1)"
    using s32_div_ok [OF that] s32_rem_ok [OF that] that by auto
  have unsigned: "\<exists>q r. ALU_execute A_DIVU a b = Inr q \<and> unat q = unat a div unat b \<and>
             ALU_execute A_REMU a b = Inr r \<and> unat r = unat a mod unat b"
    if "b \<noteq> 0"
    using that by (simp add: u32_div_def u32_rem_def unat_div unat_mod)
  show ?thesis using signed unsigned ALU_execute_total by simp
qed

theorem ALU_division_witness:
  "(\<exists>q r. ALU_execute A_DIV (- 7) 2 = Inr q \<and> sint q = - 3 \<and>
          ALU_execute A_REM (- 7) 2 = Inr r \<and> sint r = - 1) \<and>
   (\<exists>q r. ALU_execute A_DIVU 10 3 = Inr q \<and> unat q = 3 \<and>
          ALU_execute A_REMU 10 3 = Inr r \<and> unat r = 1)"
  using ALU_division [of "- 7" 2] ALU_division [of 10 3]
  by (simp add: signed_divide_int_def signed_modulo_int_def)


section \<open>Immediate fields: encoders against the decoder\<close>


lemma bits_eq': "bits v hi lo = take_bit (hi - lo + 1) (drop_bit lo v)"
  by (simp add: bits_def take_bit_eq_mask mask_eq_exp_minus_1 push_bit_eq_mult)

lemma bits_eq: "lo < hi \<Longrightarrow> bits v hi lo = take_bit (hi - lo + 1) (drop_bit lo v)"
  by (rule bits_eq')

lemma bits_single: "bits v n n = of_bool (bit v n)"
  by (simp add: bits_def and_one_eq bit_iff_odd_drop_bit mod2_eq_if)

lemma bit_push_of_bool:
  "bit (push_bit m (of_bool b :: Word)) k \<longleftrightarrow> b \<and> k = m \<and> m < 32"
  by (auto simp: bit_simps)

lemma sign_extend_eq:
  "0 < n \<Longrightarrow> sign_extend v n = (if bit v (n - 1) then v OR NOT (mask n) else v)"
  by (simp add: sign_extend_def Let_def bit_iff_and_push_bit_not_eq_0 mask_eq_exp_minus_1 push_bit_eq_mult)

lemma bit_sign_extend:
  "0 < n \<Longrightarrow> bit (sign_extend v n) k \<longleftrightarrow> k < 32 \<and> (bit v k \<or> (bit v (n - 1) \<and> n \<le> k))"
  by (auto simp: sign_extend_eq bit_simps dest: bit_imp_le_length)

lemma small_bits: "(w :: Word) < 2 ^ k \<Longrightarrow> bit w j \<Longrightarrow> j < k"
  by (metis bit_take_bit_iff less_mask_eq take_bit_eq_mask)

lemma sint_range_bits:
  fixes w :: Word
  assumes "- (2 ^ n) \<le> sint w" "sint w < 2 ^ n" "n \<le> k" "k < 32"
  shows "bit w k = bit w n"
proof -
  have "signed_take_bit n (sint w) = sint w"
    using assms(1,2) by (simp add: signed_take_bit_int_eq_self_iff)
  then have "bit (sint w) k = bit (sint w) (min n k)"
    by (metis bit_signed_take_bit_iff possible_bit_int)
  then show ?thesis using assms(3,4) by (simp add: bit_sint_iff min_def)
qed

lemma mask_consts:
  "(0xFFF :: Word) = mask 12" "(0x7F :: Word) = mask 7" "(0x1F :: Word) = mask 5"
  "(0x3F :: Word) = mask 6" "(0xF :: Word) = mask 4" "(0xFF :: Word) = mask 8"
  "(0x3FF :: Word) = mask 10"
  by (simp_all add: mask_eq_exp_minus_1)

lemma small_take_bit: "(w :: Word) < 2 ^ k \<Longrightarrow> take_bit k w = w"
  by (simp add: less_mask_eq take_bit_eq_mask)

lemma imm_roundtrip_i:
  assumes "op < 2 ^ 7" "d < 2 ^ 5" "f3 < 2 ^ 3" "s1 < 2 ^ 5"
    and "- (2 ^ 11) \<le> sint im" "sint im < 2 ^ 11"
  shows "imm_i (enc_i op d f3 s1 im) = im"
proof (rule bit_word_eqI)
  fix k assume k: "k < LENGTH(32)"
  have hi: "11 \<le> k \<Longrightarrow> bit im k = bit im 11"
    using sint_range_bits [OF assms(5,6), of k] k by simp
  have e: "enc_i op d f3 s1 im = enc_i (take_bit 7 op) (take_bit 5 d) (take_bit 3 f3) (take_bit 5 s1) im"
    using assms(1-4) by (simp add: small_take_bit)
  have "bit (imm_i (enc_i (take_bit 7 op) (take_bit 5 d) (take_bit 3 f3) (take_bit 5 s1) im)) k = bit im k"
    using k hi
    apply (simp add: imm_i_def enc_i_def bit_sign_extend bits_eq mask_consts(1) bit_simps)
    apply (cases "k < 11")
     apply simp
    apply auto
    done
  then show "bit (imm_i (enc_i op d f3 s1 im)) k = bit im k" using e by simp
qed



lemma sdb_and_mask:
  "m + n \<le> 32 \<Longrightarrow> signed_drop_bit n (w::Word) AND mask m = take_bit m (drop_bit n w)"
  by (rule bit_word_eqI) (auto simp: bit_simps)

lemma sdb_and_1:
  "n < 32 \<Longrightarrow> signed_drop_bit n (w::Word) AND 1 = of_bool (bit w n)"
proof (rule bit_word_eqI)
  fix k assume "n < 32" "k < LENGTH(32)"
  then show "bit (signed_drop_bit n w AND 1) k = bit (of_bool (bit w n) :: Word) k"
    by (cases "k = 0")
      (auto simp add: bit_and_iff bit_signed_drop_bit_iff bit_1_iff bit_of_bool_iff simp del: bit_0)
qed

lemmas enc_bit_simps = Let_def bit_sign_extend bits_eq bits_single bit_push_of_bool
  mask_consts sdb_and_mask sdb_and_1 bit_simps

lemma imm_roundtrip_s:
  assumes "op < 2 ^ 7" "f3 < 2 ^ 3" "s1 < 2 ^ 5" "s2 < 2 ^ 5"
    and "- (2 ^ 11) \<le> sint im" "sint im < 2 ^ 11"
  shows "imm_s (enc_s op f3 s1 s2 im) = im"
proof (rule bit_word_eqI)
  fix k assume k: "k < LENGTH(32)"
  have hi: "11 \<le> k \<Longrightarrow> bit im k = bit im 11"
    using sint_range_bits [OF assms(5,6), of k] k by simp
  have e: "enc_s op f3 s1 s2 im = enc_s (take_bit 7 op) (take_bit 3 f3) (take_bit 5 s1) (take_bit 5 s2) im"
    using assms(1-4) by (simp add: small_take_bit)
  consider "k < 5" | "5 \<le> k" "k < 11" | "11 \<le> k" by arith
  then have "bit (imm_s (enc_s (take_bit 7 op) (take_bit 3 f3) (take_bit 5 s1) (take_bit 5 s2) im)) k = bit im k"
  proof cases
    case 1 then show ?thesis by (simp add: imm_s_def enc_s_def enc_bit_simps)
  next
    case 2 then show ?thesis by (auto simp add: imm_s_def enc_s_def enc_bit_simps)
  next
    case 3 then show ?thesis using k hi by (auto simp add: imm_s_def enc_s_def enc_bit_simps)
  qed
  then show "bit (imm_s (enc_s op f3 s1 s2 im)) k = bit im k" using e by simp
qed



lemma bit_times2: "bit (w * 2 :: Word) k \<longleftrightarrow> 0 < k \<and> k < 32 \<and> bit w (k - 1)"
  using bit_double_iff [of w k] by (auto simp: mult.commute dest: bit_imp_le_length)

lemma bit_div2: "bit (w div 2 :: Word) k \<longleftrightarrow> bit w (Suc k)"
  by (simp add: bit_Suc)



lemma imm_roundtrip_u:
  assumes "op < 2 ^ 7" "d < 2 ^ 5"
  shows "imm_u (enc_u op d (push_bit 12 p)) = push_bit 12 p"
proof (rule bit_word_eqI)
  fix k assume k: "k < LENGTH(32)"
  have m: "(0xFFFFF000 :: Word) = NOT (mask 12)" by (simp add: mask_eq_exp_minus_1)
  have e: "enc_u op d (push_bit 12 p) = enc_u (take_bit 7 op) (take_bit 5 d) (push_bit 12 p)"
    using assms(1-2) by (simp add: small_take_bit)
  have "bit (imm_u (enc_u (take_bit 7 op) (take_bit 5 d) (push_bit 12 p))) k = bit (push_bit 12 p) k"
    using k by (cases "k < 12") (auto simp add: imm_u_def enc_u_def m bit_simps)
  then show "bit (imm_u (enc_u op d (push_bit 12 p))) k = bit (push_bit 12 p :: Word) k" using e by simp
qed

lemma payload_u: "(p :: Word) < 2 ^ 20 \<Longrightarrow> drop_bit 12 (push_bit 12 p) = p"
proof (rule bit_word_eqI)
  fix k assume "p < 2 ^ 20" "k < LENGTH(32)"
  then show "bit (drop_bit 12 (push_bit 12 p)) k = bit p k"
    using small_bits [of p 20 k] by (auto simp: bit_simps)
qed


lemmas enc_step2 = bit_or_iff bit_push_bit_iff bit_take_bit_iff bit_drop_bit_eq bit_times2
  bit_div2 bit_push_of_bool bit_of_bool_iff

lemma imm_b_bits:
  "bit (imm_b w) k \<longleftrightarrow>
     k < 32 \<and> (if k = 0 then False else if k < 5 then bit w (k + 7)
               else if k < 11 then bit w (k + 20) else if k = 11 then bit w 7 else bit w 31)"
  apply (simp add: imm_b_def bit_sign_extend bits_single bits_eq split del: split_of_bool del: bit_0)
  apply (simp add: enc_step2 split del: split_of_bool del: bit_0)
  apply (auto simp: add.commute)
  done


lemma enc_b_bits:
  "j < 32 \<Longrightarrow>
   bit (enc_b (take_bit 7 op) (take_bit 3 f3) (take_bit 5 s1) (take_bit 5 s2) im) j \<longleftrightarrow>
     (if j < 7 then bit op j else if j = 7 then bit im 11 else if j < 12 then bit im (j - 7)
      else if j < 15 then bit f3 (j - 12) else if j < 20 then bit s1 (j - 15)
      else if j < 25 then bit s2 (j - 20) else if j < 31 then bit im (j - 20) else bit im 12)"
proof -
  have h: "\<not> j < 7 \<Longrightarrow> j \<noteq> 7 \<Longrightarrow> Suc (j - 8) = j - 7" by arith
  assume "j < 32"
  then show ?thesis
    apply (simp add: enc_b_def Let_def mask_consts sdb_and_mask sdb_and_1 split del: split_of_bool del: bit_0)
    apply (simp add: enc_step2 split del: split_of_bool del: bit_0)
    apply (auto simp: add.commute h)
    done
qed

lemma imm_roundtrip_b:
  assumes "op < 2 ^ 7" "f3 < 2 ^ 3" "s1 < 2 ^ 5" "s2 < 2 ^ 5"
    and "- (2 ^ 12) \<le> sint im" "sint im < 2 ^ 12" "\<not> bit im 0"
  shows "imm_b (enc_b op f3 s1 s2 im) = im"
proof (rule bit_word_eqI)
  fix k assume k: "k < LENGTH(32)"
  have hi: "12 \<le> k \<Longrightarrow> bit im k = bit im 12"
    using sint_range_bits [OF assms(5,6), of k] k by simp
  have e: "enc_b op f3 s1 s2 im = enc_b (take_bit 7 op) (take_bit 3 f3) (take_bit 5 s1) (take_bit 5 s2) im"
    using assms(1-4) by (simp add: small_take_bit)
  show "bit (imm_b (enc_b op f3 s1 s2 im)) k = bit im k"
    unfolding e using k hi assms(7)
    by (auto simp: imm_b_bits enc_b_bits)
qed

lemma imm_j_bits:
  "bit (imm_j w) k \<longleftrightarrow>
     k < 32 \<and> (if k = 0 then False else if k < 11 then bit w (k + 20)
               else if k = 11 then bit w 20 else if k < 20 then bit w k else bit w 31)"
  apply (simp add: imm_j_def bit_sign_extend bits_single bits_eq split del: split_of_bool del: bit_0)
  apply (simp add: enc_step2 split del: split_of_bool del: bit_0)
  apply (auto simp: add.commute)
  done

lemma enc_j_bits:
  "j < 32 \<Longrightarrow>
   bit (enc_j (take_bit 7 op) (take_bit 5 d) im) j \<longleftrightarrow>
     (if j < 7 then bit op j else if j < 12 then bit d (j - 7) else if j < 20 then bit im j
      else if j = 20 then bit im 11 else if j < 31 then bit im (j - 20) else bit im 20)"
proof -
  have h: "\<not> j < 21 \<Longrightarrow> Suc (j - 21) = j - 20" by arith
  assume "j < 32"
  then show ?thesis
    apply (simp add: enc_j_def Let_def mask_consts sdb_and_mask sdb_and_1 split del: split_of_bool del: bit_0)
    apply (simp add: enc_step2 split del: split_of_bool del: bit_0)
    apply (auto simp: add.commute h)
    done
qed

lemma imm_roundtrip_j:
  assumes "op < 2 ^ 7" "d < 2 ^ 5"
    and "- (2 ^ 20) \<le> sint im" "sint im < 2 ^ 20" "\<not> bit im 0"
  shows "imm_j (enc_j op d im) = im"
proof (rule bit_word_eqI)
  fix k assume k: "k < LENGTH(32)"
  have hi: "20 \<le> k \<Longrightarrow> bit im k = bit im 20"
    using sint_range_bits [OF assms(3,4), of k] k by simp
  have e: "enc_j op d im = enc_j (take_bit 7 op) (take_bit 5 d) im"
    using assms(1-2) by (simp add: small_take_bit)
  show "bit (imm_j (enc_j op d im)) k = bit im k"
    unfolding e using k hi assms(5)
    by (auto simp: imm_j_bits enc_j_bits)
qed

text \<open>Claim C8. For every format, with opcode, register and funct3 fields within their
  widths, and every immediate in the format's range, the decoder's reconstruction of the
  encoder's word is the immediate: I and S, 12-bit signed; B, 13-bit signed and even;
  J, 21-bit signed and even. For U the 20-bit payload \<open>p\<close> is handed to \<open>enc_u\<close> the way
  the assembler does it, as \<open>p << 12\<close>; \<open>imm_u\<close> returns that value, whose upper 20
  bits are \<open>p\<close>.\<close>

theorem immediate_round_trip:
  assumes "op < 2 ^ 7" "d < 2 ^ 5" "f3 < 2 ^ 3" "s1 < 2 ^ 5" "s2 < 2 ^ 5"
  shows "(- (2 ^ 11) \<le> sint im \<and> sint im < 2 ^ 11 \<longrightarrow>
            imm_i (enc_i op d f3 s1 im) = im \<and> imm_s (enc_s op f3 s1 s2 im) = im) \<and>
         (- (2 ^ 12) \<le> sint im \<and> sint im < 2 ^ 12 \<and> \<not> bit im 0 \<longrightarrow>
            imm_b (enc_b op f3 s1 s2 im) = im) \<and>
         (p < 2 ^ 20 \<longrightarrow>
            imm_u (enc_u op d (push_bit 12 p)) = push_bit 12 p \<and>
            drop_bit 12 (imm_u (enc_u op d (push_bit 12 p))) = p) \<and>
         (- (2 ^ 20) \<le> sint im \<and> sint im < 2 ^ 20 \<and> \<not> bit im 0 \<longrightarrow>
            imm_j (enc_j op d im) = im)"
  using imm_roundtrip_i [OF assms(1,2,3,4), of im] imm_roundtrip_s [OF assms(1,3,4,5), of im]
    imm_roundtrip_b [OF assms(1,3,4,5), of im] imm_roundtrip_u [OF assms(1,2), of p]
    imm_roundtrip_j [OF assms(1,2), of im] payload_u [of p]
  by simp

theorem immediate_round_trip_witness:
  "imm_i (enc_i 0x13 1 0 2 (- 5)) = - 5 \<and> imm_s (enc_s 0x23 2 1 3 (- 5)) = - 5 \<and>
   imm_b (enc_b 0x63 0 1 2 (- 6)) = - 6 \<and>
   drop_bit 12 (imm_u (enc_u 0x37 1 (push_bit 12 0x12345))) = 0x12345 \<and>
   imm_j (enc_j 0x6F 1 (- 6)) = - 6"
proof -
  have a: "imm_i (enc_i 0x13 1 0 2 (- 5)) = - 5"
    using immediate_round_trip [of "0x13" 1 0 2 3 "- 5" 0] by simp
  have b: "imm_s (enc_s 0x23 2 1 3 (- 5)) = - 5"
    using immediate_round_trip [of "0x23" 0 2 1 3 "- 5" 0] by simp
  have c: "imm_b (enc_b 0x63 0 1 2 (- 6)) = - 6"
    using immediate_round_trip [of "0x63" 0 0 1 2 "- 6" 0] by simp
  have d: "drop_bit 12 (imm_u (enc_u 0x37 1 (push_bit 12 0x12345))) = 0x12345"
    using immediate_round_trip [of "0x37" 1 0 0 0 0 "0x12345"] by simp
  have e: "imm_j (enc_j 0x6F 1 (- 6)) = - 6"
    using immediate_round_trip [of "0x6F" 1 0 0 0 "- 6" 0] by simp
  show ?thesis using a b c d e by simp
qed

section \<open>The executors on concrete programs\<close>

text \<open>Claim C1 (the pipeline with hazard detection and forwarding agrees with the
  single-cycle executor on every halting program) does not hold of the code. On the
  program \<open>addi x1,x0,5; nop; addi x3,x1,0; ecall\<close>, loaded the way the emulator loads
  it, both executors halt; the single-cycle executor leaves 5 in \<open>x3\<close>, the pipeline
  leaves 0: the second \<open>addi\<close> read \<open>x1\<close> in ID before the first one wrote it back, and
  nothing is forwarded from an instruction two positions ahead.\<close>

theorem distance_two_divergence:
  "(case bind (Pipeline_load distance_two_source) (\<lambda>p. Inr (Pipeline_run 20 p)) of
      Inr (Some (Inr p)) \<Rightarrow> p_halted p \<and> p_regs p ! 3 = 0
    | _ \<Rightarrow> False) \<and>
   (case bind (CPU_load distance_two_source) (\<lambda>c. Inr (CPU_run 20 c)) of
      Inr (Some (Inr c)) \<Rightarrow> c_halted c \<and> c_regs c ! 3 = 5
    | _ \<Rightarrow> False)"
  by code_simp

text \<open>Claim C2 (load-use scenario: one stall, no flush, and \<open>x3 = 1\<close> at the end) does
  not hold of the code. After the nine cycles that take the four instructions through
  write-back the pipeline has stalled once and flushed nothing, but \<open>x3\<close> holds
  \<open>0x7FFFFFF1\<close>: the \<open>addi\<close> used the stack pointer that the loader had put into \<open>x2\<close>,
  not the loaded word; and \<open>x2\<close> holds the first instruction word, since the \<open>lw\<close> used
  a stale \<open>x1\<close>. The single-cycle executor gives \<open>x3 = 1\<close> and \<open>x2 = 0\<close>.\<close>

theorem load_use_scenario:
  "(case bind (Pipeline_load load_use_source) (Pipeline_cycles 9) of
      Inr p \<Rightarrow> p_regs p ! 3 = 0x7FFFFFF1 \<and> p_regs p ! 2 = 0x10000093 \<and>
               stalls p = 1 \<and> flushes p = 0
    | Inl e \<Rightarrow> False) \<and>
   (case bind (CPU_load load_use_source) (CPU_steps 4) of
      Inr c \<Rightarrow> c_regs c ! 3 = 1 \<and> c_regs c ! 2 = 0
    | Inl e \<Rightarrow> False)"
  by code_simp

text \<open>Claim C5 (a single-cycle step of an instruction decoded as \<open>UNKNOWN\<close> changes no
  register) does not hold of the code. The word \<open>0x00503083\<close> has the load opcode and
  the unassigned funct3 \<open>011\<close>; it decodes to \<open>UNKNOWN\<close> with \<open>reg_write\<close> still set, and
  the step writes \<open>rs1 + imm = 5\<close> into \<open>x1\<close>. The PC does advance by 4.\<close>

theorem unknown_load_writes_register:
  "itype (decode 0x00503083 0) = I_UNKNOWN \<and>
   (case CPU_boot [0x00503083] [] of
      Inr c \<Rightarrow>
        c_regs c ! 1 = 0 \<and>
        (case CPU_step c of
           Inr (continue, c') \<Rightarrow> c_regs c' ! 1 = 5 \<and> c_pc c' = c_pc c + 4
         | Inl e \<Rightarrow> False)
    | Inl e \<Rightarrow> False)"
  by code_simp

text \<open>Claim C7 (every unresolved label is reported) does not hold of the code. The
  source \<open>bnez x1, nowhere\<close> assembles with success, an empty error list and no code;
  the real branch \<open>bne x1, x0, nowhere\<close> reports the label, as the claim says.\<close>

theorem bnez_unknown_label_silent:
  "(case assemble (unlines [''bnez x1, nowhere'']) of
      Inr r \<Rightarrow> success r \<and> res_errors r = [] \<and> res_text r = []
    | Inl e \<Rightarrow> False) \<and>
   (case assemble (unlines [''bne x1, x0, nowhere'']) of
      Inr r \<Rightarrow> \<not> success r \<and> res_errors r = [''Line 1: Unknown label: nowhere'']
    | Inl e \<Rightarrow> False)"
  by code_simp


end
